theory Spec2Isabelle
  imports Main "HOL-Library.Word"
begin

section \<open>Values that cross the C boundary\<close>

text \<open>
  The bridge \<^verbatim>\<open>msstore_winrt.cpp\<close> is embedded shallowly. Threads, addresses of the COM
  task allocator, window handles and window messages are natural numbers; a C pointer is
  an \<open>addr option\<close>, with \<open>None\<close> for \<^verbatim>\<open>nullptr\<close>.
\<close>

type_synonym tid = nat
type_synonym addr = nat
type_synonym HWND = nat
type_synonym MSG = nat

text \<open>
  A \<^verbatim>\<open>const char*\<close> argument is a null pointer or the bytes it points to; the C string
  there ends before the first NUL byte.
\<close>

definition c_str :: "string \<Rightarrow> string" where
  "c_str bytes = takeWhile (\<lambda>c. c \<noteq> CHR 0x00) bytes"

text \<open>
  What a C++ call can throw, as the three \<^verbatim>\<open>catch\<close> clauses of the entry points tell
  the cases apart: a \<^verbatim>\<open>winrt::hresult_error\<close> with its message, a \<^verbatim>\<open>std::exception\<close>
  with its \<^verbatim>\<open>what()\<close>, and anything else. A call's outcome is the exception that leaves
  it (\<open>Inl\<close>) or the value it returns (\<open>Inr\<close>).
\<close>

datatype exn = hresult_error string | std_exception string | other_exception

type_synonym 'a outcome = "exn + 'a"

subsection \<open>The platform's status enumerations\<close>

text \<open>
  \<^verbatim>\<open>StorePurchaseStatus\<close> and \<^verbatim>\<open>StoreRateAndReviewStatus\<close> are declared by the Windows SDK
  (\<^verbatim>\<open>winrt/Windows.Services.Store.h\<close>) as scoped enumerations over \<^verbatim>\<open>int32_t\<close>, so a value
  of the type is any 32-bit word; the enumerators are the SDK's.
\<close>

type_synonym StorePurchaseStatus = "32 word"
type_synonym StoreRateAndReviewStatus = "32 word"

definition StorePurchaseStatus_Succeeded :: StorePurchaseStatus where
  "StorePurchaseStatus_Succeeded = 0"
definition StorePurchaseStatus_AlreadyPurchased :: StorePurchaseStatus where
  "StorePurchaseStatus_AlreadyPurchased = 1"
definition StorePurchaseStatus_NotPurchased :: StorePurchaseStatus where
  "StorePurchaseStatus_NotPurchased = 2"
definition StorePurchaseStatus_NetworkError :: StorePurchaseStatus where
  "StorePurchaseStatus_NetworkError = 3"
definition StorePurchaseStatus_ServerError :: StorePurchaseStatus where
  "StorePurchaseStatus_ServerError = 4"

definition StoreRateAndReviewStatus_Succeeded :: StoreRateAndReviewStatus where
  "StoreRateAndReviewStatus_Succeeded = 0"
definition StoreRateAndReviewStatus_CanceledByUser :: StoreRateAndReviewStatus where
  "StoreRateAndReviewStatus_CanceledByUser = 1"
definition StoreRateAndReviewStatus_NetworkError :: StoreRateAndReviewStatus where
  "StoreRateAndReviewStatus_NetworkError = 2"
definition StoreRateAndReviewStatus_Error :: StoreRateAndReviewStatus where
  "StoreRateAndReviewStatus_Error = 3"

text \<open>\<^verbatim>\<open>map_purchase_status\<close>: the \<^verbatim>\<open>switch\<close>, case by case, with its \<^verbatim>\<open>default\<close>.\<close>

definition map_purchase_status :: "StorePurchaseStatus \<Rightarrow> int" where
  "map_purchase_status status =
     (if status = StorePurchaseStatus_Succeeded then 0
      else if status = StorePurchaseStatus_AlreadyPurchased then 1
      else if status = StorePurchaseStatus_NotPurchased then 2
      else if status = StorePurchaseStatus_NetworkError then 3
      else if status = StorePurchaseStatus_ServerError then 4
      else 5)"

text \<open>\<^verbatim>\<open>map_rate_and_review_status\<close>.\<close>

definition map_rate_and_review_status :: "StoreRateAndReviewStatus \<Rightarrow> int" where
  "map_rate_and_review_status status =
     (if status = StoreRateAndReviewStatus_Succeeded then 0
      else if status = StoreRateAndReviewStatus_CanceledByUser then 1
      else if status = StoreRateAndReviewStatus_NetworkError then 2
      else if status = StoreRateAndReviewStatus_Error then 3
      else 4)"

subsection \<open>The platform as seen by one call\<close>

text \<open>
  The Store, COM and the window manager are outside the repository. One call of an entry
  point sees them through what their functions answer; the record below fixes these
  answers for one call. A WinRT object that may be null is an \<open>option\<close>.
\<close>

datatype AsyncStatus = Started | Completed | Canceled | Error

record StoreAppLicense =
  ExtendedJsonData :: string

record StorePurchaseResult =
  purchase_Status :: StorePurchaseStatus

record StoreRateAndReviewResult =
  rate_Status :: StoreRateAndReviewStatus

record platform =
  init_apartment_outcome :: "exn option"
  GetDefault_outcome :: "exn option"
  GetForegroundWindow_result :: "HWND option"
  as_IInitializeWithWindow_outcome :: "exn option"
  GetAppLicenseAsync_get :: "StoreAppLicense option outcome"
  RequestPurchaseAsync_get :: "string \<Rightarrow> StorePurchaseResult option outcome"
  RequestRateAndReviewAppAsync_outcome :: "exn option"
  operation_Status :: "nat \<Rightarrow> AsyncStatus"
  operation_GetResults :: "StoreRateAndReviewResult option outcome"
  queued_messages :: "nat \<Rightarrow> MSG list"
  handler_assignment_outcome :: "exn option"

text \<open>
  \<open>operation_Status w k\<close> is what \<^verbatim>\<open>operation.Status()\<close> answers when it is asked for the
  \<open>k\<close>-th time (counting from 0), and \<open>queued_messages w k\<close> are the messages that
  \<^verbatim>\<open>PeekMessageW\<close> finds in the calling thread's queue during the \<open>k\<close>-th pass of the loop.
  \<open>handler_assignment_outcome w\<close> is what the assignment of the message to
  \<^verbatim>\<open>g_lastError\<close> inside a \<^verbatim>\<open>catch\<close> clause throws, \<open>None\<close> when it completes: the
  assignment builds a \<^verbatim>\<open>std::string\<close>, which allocates and can throw
  \<^verbatim>\<open>std::bad_alloc\<close>. The getters of a result object (\<^verbatim>\<open>ExtendedJsonData()\<close>,
  \<^verbatim>\<open>Status()\<close>) and the assignments to \<^verbatim>\<open>g_lastError\<close> inside a \<^verbatim>\<open>try\<close> block are taken
  to complete; an exception from one of them would be caught like that of any other call
  of the block.
\<close>

datatype event =
    Call_init_apartment
  | Call_GetDefault
  | Call_GetForegroundWindow
  | Call_as_IInitializeWithWindow
  | Call_Initialize HWND
  | Call_GetAppLicenseAsync
  | Call_RequestPurchaseAsync string
  | Call_RequestRateAndReviewAppAsync
  | Call_Status AsyncStatus
  | Call_TranslateMessage MSG
  | Call_DispatchMessageW MSG
  | Call_MsgWaitForMultipleObjectsEx
  | Call_GetResults

section \<open>The state of the process\<close>

text \<open>
  \<^verbatim>\<open>static thread_local std::string g_lastError\<close> is one string per thread. The COM task
  allocator holds the blocks it has handed out (address and bytes) and the bytes it can
  still hand out. \<open>trace\<close> lists the platform calls made so far, in order. \<open>fault\<close> records
  that \<^verbatim>\<open>CoTaskMemFree\<close> was given an address that is not a live block, which the platform
  leaves undefined.
\<close>

record state =
  g_lastError :: "tid \<Rightarrow> string"
  blocks :: "(addr \<times> string) list"
  avail :: nat
  trace :: "event list"
  fault :: bool

definition set_g_lastError :: "tid \<Rightarrow> string \<Rightarrow> state \<Rightarrow> state" where
  "set_g_lastError t m s = s\<lparr>g_lastError := (g_lastError s)(t := m)\<rparr>"

definition log_call :: "event \<Rightarrow> state \<Rightarrow> state" where
  "log_call e s = s\<lparr>trace := trace s @ [e]\<rparr>"

subsection \<open>The COM task allocator\<close>

definition fresh_addr :: "(addr \<times> string) list \<Rightarrow> addr" where
  "fresh_addr bs = Suc (fold max (map fst bs) 0)"

text \<open>
  \<^verbatim>\<open>CoTaskMemAlloc(size)\<close>: a null pointer when the allocator cannot serve \<open>size\<close> bytes,
  otherwise a block of \<open>size\<close> bytes at an address that is not in use.
\<close>

definition CoTaskMemAlloc :: "nat \<Rightarrow> state \<Rightarrow> addr option \<times> state" where
  "CoTaskMemAlloc sz s =
     (if avail s < sz then (None, s)
      else (Some (fresh_addr (blocks s)),
            s\<lparr>blocks := (fresh_addr (blocks s), replicate sz (CHR 0x00)) # blocks s,
              avail := avail s - sz\<rparr>))"

text \<open>\<^verbatim>\<open>std::memcpy(buffer, src, size)\<close> into the block at \<open>p\<close>.\<close>

definition memcpy :: "addr \<Rightarrow> string \<Rightarrow> nat \<Rightarrow> state \<Rightarrow> state" where
  "memcpy p src sz s =
     s\<lparr>blocks := map (\<lambda>(a, bytes). if a = p then (a, take sz src @ drop sz bytes)
                                    else (a, bytes)) (blocks s)\<rparr>"

definition CoTaskMemFree :: "addr \<Rightarrow> state \<Rightarrow> state" where
  "CoTaskMemFree p s =
     (case map_of (blocks s) p of
        None \<Rightarrow> s\<lparr>fault := True\<rparr>
      | Some bytes \<Rightarrow>
          s\<lparr>blocks := filter (\<lambda>(a, _). a \<noteq> p) (blocks s),
            avail := avail s + length bytes\<rparr>)"

text \<open>
  \<^verbatim>\<open>dup_string\<close>: \<open>value.size() + 1\<close> bytes are asked for; on a null pointer the function
  returns null; otherwise \<open>value.c_str()\<close>, that is the string and its terminating NUL,
  is copied into the block.
\<close>

definition dup_string :: "string \<Rightarrow> state \<Rightarrow> addr option \<times> state" where
  "dup_string val s =
     (let sz = length val + 1 in
      case CoTaskMemAlloc sz s of
        (None, s1) \<Rightarrow> (None, s1)
      | (Some buffer, s1) \<Rightarrow> (Some buffer, memcpy buffer (val @ [CHR 0x00]) sz s1))"

section \<open>Platform calls\<close>

text \<open>Every platform call is logged, and throws or returns as the platform record says.\<close>

definition init_apartment :: "platform \<Rightarrow> state \<Rightarrow> unit outcome \<times> state" where
  "init_apartment w s =
     (case init_apartment_outcome w of Some e \<Rightarrow> Inl e | None \<Rightarrow> Inr (),
      log_call Call_init_apartment s)"

definition StoreContext_GetDefault :: "platform \<Rightarrow> state \<Rightarrow> unit outcome \<times> state" where
  "StoreContext_GetDefault w s =
     (case GetDefault_outcome w of Some e \<Rightarrow> Inl e | None \<Rightarrow> Inr (),
      log_call Call_GetDefault s)"

text \<open>
  \<^verbatim>\<open>initialize_store_ui_owner\<close>: without a foreground window the error is stored and
  \<^verbatim>\<open>false\<close> returned; otherwise the context is cast (which can throw) and
  \<^verbatim>\<open>Initialize(ownerWindow)\<close> is called, its \<^verbatim>\<open>HRESULT\<close> not looked at.
\<close>

definition initialize_store_ui_owner :: "platform \<Rightarrow> tid \<Rightarrow> state \<Rightarrow> bool outcome \<times> state" where
  "initialize_store_ui_owner w t s =
     (let s1 = log_call Call_GetForegroundWindow s in
      case GetForegroundWindow_result w of
        None \<Rightarrow>
          (Inr False,
           set_g_lastError t ''No foreground window handle available for Store UI.'' s1)
      | Some ownerWindow \<Rightarrow>
          (let s2 = log_call Call_as_IInitializeWithWindow s1 in
           case as_IInitializeWithWindow_outcome w of
             Some e \<Rightarrow> (Inl e, s2)
           | None \<Rightarrow> (Inr True, log_call (Call_Initialize ownerWindow) s2)))"

text \<open>The inner loop: each message that \<^verbatim>\<open>PeekMessageW\<close> removes is translated and dispatched.\<close>

fun pump_messages :: "MSG list \<Rightarrow> state \<Rightarrow> state" where
  "pump_messages [] s = s"
| "pump_messages (message # rest) s =
     pump_messages rest
       (log_call (Call_DispatchMessageW message) (log_call (Call_TranslateMessage message) s))"

text \<open>
  \<^verbatim>\<open>wait_for_rate_and_review_result\<close>. \<open>k\<close> counts the passes made so far; the source
  starts at none. The loop has no bound of its own: where the operation stays
  \<^verbatim>\<open>Started\<close> for ever the function does not return, which is the value \<open>None\<close>.
\<close>

partial_function (option) wait_for_rate_and_review_result ::
  "platform \<Rightarrow> nat \<Rightarrow> state \<Rightarrow> (StoreRateAndReviewResult option outcome \<times> state) option" where
  "wait_for_rate_and_review_result w k s =
     (if operation_Status w k = Started
      then wait_for_rate_and_review_result w (Suc k)
             (log_call Call_MsgWaitForMultipleObjectsEx
               (pump_messages (queued_messages w k) (log_call (Call_Status Started) s)))
      else Some (operation_GetResults w,
                 log_call Call_GetResults (log_call (Call_Status (operation_Status w k)) s)))"

section \<open>The exported entry points\<close>

text \<open>
  The three \<^verbatim>\<open>catch\<close> clauses, the same in every entry point that has a \<^verbatim>\<open>try\<close>, and the
  \<^verbatim>\<open>return\<close> of the sentinel after them. \<open>exn_message\<close> is what the matching clause
  assigns to \<^verbatim>\<open>g_lastError\<close>. The assignment stands inside the handler, outside every
  \<^verbatim>\<open>try\<close>: an exception it throws is caught by no sibling clause and leaves the entry
  point, with \<^verbatim>\<open>g_lastError\<close> as it was.
\<close>

fun exn_message :: "exn \<Rightarrow> string" where
  "exn_message (hresult_error message) = message"
| "exn_message (std_exception what) = what"
| "exn_message other_exception = ''Unknown native error.''"

definition store_in_handler ::
  "platform \<Rightarrow> tid \<Rightarrow> string \<Rightarrow> 'a \<Rightarrow> state \<Rightarrow> 'a outcome \<times> state" where
  "store_in_handler w t message sentinel s =
     (case handler_assignment_outcome w of
        Some thrown \<Rightarrow> (Inl thrown, s)
      | None \<Rightarrow> (Inr sentinel, set_g_lastError t message s))"

definition catch_clauses ::
  "platform \<Rightarrow> tid \<Rightarrow> 'a \<Rightarrow> 'a outcome \<times> state \<Rightarrow> 'a outcome \<times> state" where
  "catch_clauses w t sentinel r =
     (case r of
        (Inr v, s) \<Rightarrow> (Inr v, s)
      | (Inl (hresult_error message), s) \<Rightarrow> store_in_handler w t message sentinel s
      | (Inl (std_exception what), s) \<Rightarrow> store_in_handler w t what sentinel s
      | (Inl other_exception, s) \<Rightarrow>
          store_in_handler w t ''Unknown native error.'' sentinel s)"

text \<open>The \<^verbatim>\<open>try\<close> block of \<^verbatim>\<open>msstore_winrt_get_license_json\<close>.\<close>

definition get_license_json_try :: "platform \<Rightarrow> tid \<Rightarrow> state \<Rightarrow> addr option outcome \<times> state" where
  "get_license_json_try w t s =
     (case init_apartment w s of
        (Inl e, s1) \<Rightarrow> (Inl e, s1)
      | (Inr _, s1) \<Rightarrow>
     (case StoreContext_GetDefault w s1 of
        (Inl e, s2) \<Rightarrow> (Inl e, s2)
      | (Inr _, s2) \<Rightarrow>
     (case (GetAppLicenseAsync_get w, log_call Call_GetAppLicenseAsync s2) of
        (Inl e, s3) \<Rightarrow> (Inl e, s3)
      | (Inr None, s3) \<Rightarrow> (Inr None, set_g_lastError t ''StoreAppLicense is null.'' s3)
      | (Inr (Some license), s3) \<Rightarrow>
          (let json = ExtendedJsonData license;
               s4 = set_g_lastError t [] s3;
               (buffer, s5) = dup_string json s4
           in (Inr buffer, s5)))))"

definition msstore_winrt_get_license_json ::
  "platform \<Rightarrow> tid \<Rightarrow> state \<Rightarrow> addr option outcome \<times> state" where
  "msstore_winrt_get_license_json w t s = catch_clauses w t None (get_license_json_try w t s)"

text \<open>\<^verbatim>\<open>msstore_winrt_get_last_error\<close> has no \<^verbatim>\<open>try\<close>: it is \<^verbatim>\<open>dup_string(g_lastError)\<close>.\<close>

definition msstore_winrt_get_last_error :: "tid \<Rightarrow> state \<Rightarrow> addr option outcome \<times> state" where
  "msstore_winrt_get_last_error t s =
     (let (buffer, s1) = dup_string (g_lastError s t) s in (Inr buffer, s1))"

text \<open>The \<^verbatim>\<open>try\<close> block of \<^verbatim>\<open>msstore_winrt_request_purchase\<close>.\<close>

definition request_purchase_try ::
  "platform \<Rightarrow> tid \<Rightarrow> string option \<Rightarrow> state \<Rightarrow> int outcome \<times> state" where
  "request_purchase_try w t storeId s =
     (case storeId of
        None \<Rightarrow> (Inr (- 1), set_g_lastError t ''Store ID is null or empty.'' s)
      | Some bytes \<Rightarrow>
     (if c_str bytes = []
      then (Inr (- 1), set_g_lastError t ''Store ID is null or empty.'' s)
      else
     (case init_apartment w s of
        (Inl e, s1) \<Rightarrow> (Inl e, s1)
      | (Inr _, s1) \<Rightarrow>
     (case StoreContext_GetDefault w s1 of
        (Inl e, s2) \<Rightarrow> (Inl e, s2)
      | (Inr _, s2) \<Rightarrow>
     (case initialize_store_ui_owner w t s2 of
        (Inl e, s3) \<Rightarrow> (Inl e, s3)
      | (Inr False, s3) \<Rightarrow> (Inr (- 1), s3)
      | (Inr True, s3) \<Rightarrow>
     (case (RequestPurchaseAsync_get w (c_str bytes),
            log_call (Call_RequestPurchaseAsync (c_str bytes)) s3) of
        (Inl e, s4) \<Rightarrow> (Inl e, s4)
      | (Inr None, s4) \<Rightarrow> (Inr (- 1), set_g_lastError t ''StorePurchaseResult is null.'' s4)
      | (Inr (Some result), s4) \<Rightarrow>
          (Inr (map_purchase_status (purchase_Status result)), set_g_lastError t [] s4)))))))"

definition msstore_winrt_request_purchase ::
  "platform \<Rightarrow> tid \<Rightarrow> string option \<Rightarrow> state \<Rightarrow> int outcome \<times> state" where
  "msstore_winrt_request_purchase w t storeId s =
     catch_clauses w t (- 1) (request_purchase_try w t storeId s)"

text \<open>
  The \<^verbatim>\<open>try\<close> block of \<^verbatim>\<open>msstore_winrt_request_rate_and_review\<close>; \<open>None\<close> where the wait
  does not return.
\<close>

definition request_rate_and_review_try ::
  "platform \<Rightarrow> tid \<Rightarrow> state \<Rightarrow> (int outcome \<times> state) option" where
  "request_rate_and_review_try w t s =
     (case init_apartment w s of
        (Inl e, s1) \<Rightarrow> Some (Inl e, s1)
      | (Inr _, s1) \<Rightarrow>
     (case StoreContext_GetDefault w s1 of
        (Inl e, s2) \<Rightarrow> Some (Inl e, s2)
      | (Inr _, s2) \<Rightarrow>
     (case initialize_store_ui_owner w t s2 of
        (Inl e, s3) \<Rightarrow> Some (Inl e, s3)
      | (Inr False, s3) \<Rightarrow> Some (Inr (- 1), s3)
      | (Inr True, s3) \<Rightarrow>
     (case (RequestRateAndReviewAppAsync_outcome w, log_call Call_RequestRateAndReviewAppAsync s3) of
        (Some e, s4) \<Rightarrow> Some (Inl e, s4)
      | (None, s4) \<Rightarrow>
     (case wait_for_rate_and_review_result w 0 s4 of
        None \<Rightarrow> None
      | Some (Inl e, s5) \<Rightarrow> Some (Inl e, s5)
      | Some (Inr None, s5) \<Rightarrow>
          Some (Inr (- 1), set_g_lastError t ''StoreRateAndReviewResult is null.'' s5)
      | Some (Inr (Some result), s5) \<Rightarrow>
          Some (Inr (map_rate_and_review_status (rate_Status result)),
                set_g_lastError t [] s5))))))"

definition msstore_winrt_request_rate_and_review ::
  "platform \<Rightarrow> tid \<Rightarrow> state \<Rightarrow> (int outcome \<times> state) option" where
  "msstore_winrt_request_rate_and_review w t s =
     map_option (catch_clauses w t (- 1)) (request_rate_and_review_try w t s)"

text \<open>\<^verbatim>\<open>msstore_winrt_free\<close>: nothing on a null pointer, \<^verbatim>\<open>CoTaskMemFree\<close> otherwise.\<close>

definition msstore_winrt_free :: "addr option \<Rightarrow> state \<Rightarrow> state" where
  "msstore_winrt_free ptr s = (case ptr of None \<Rightarrow> s | Some p \<Rightarrow> CoTaskMemFree p s)"

section \<open>Notions used to state the properties\<close>

subsection \<open>Traces of the wait loop\<close>

text \<open>
  The platform calls of one pass of the wait loop, as the trace shows them: the status
  poll that found the operation \<^verbatim>\<open>Started\<close>, every queued message translated and
  dispatched in queue order, and the bounded wait.
\<close>

definition pump_trace :: "MSG list \<Rightarrow> event list" where
  "pump_trace ms = concat (map (\<lambda>m. [Call_TranslateMessage m, Call_DispatchMessageW m]) ms)"

definition cycle_trace :: "platform \<Rightarrow> nat \<Rightarrow> event list" where
  "cycle_trace w k =
     Call_Status Started # pump_trace (queued_messages w k) @ [Call_MsgWaitForMultipleObjectsEx]"

subsection \<open>Completed flows\<close>

text \<open>
  A purchase flow completes with a result object when the store ID is a non-empty string,
  the apartment, the store context and the owner window are set up without an exception,
  and the platform's asynchronous request yields that object. A rating flow completes
  with a result object after \<open>n\<close> passes when the set-up and the dispatch go through,
  the operation is \<^verbatim>\<open>Started\<close> at the first \<open>n\<close> polls and \<^verbatim>\<open>Completed\<close> at the next,
  and \<^verbatim>\<open>GetResults\<close> yields that object.
\<close>

definition purchase_flow_completes :: "platform \<Rightarrow> string option \<Rightarrow> StorePurchaseResult \<Rightarrow> bool" where
  "purchase_flow_completes w storeId result =
     (case storeId of
        None \<Rightarrow> False
      | Some bytes \<Rightarrow>
          c_str bytes \<noteq> [] \<and>
          init_apartment_outcome w = None \<and> GetDefault_outcome w = None \<and>
          GetForegroundWindow_result w \<noteq> None \<and> as_IInitializeWithWindow_outcome w = None \<and>
          RequestPurchaseAsync_get w (c_str bytes) = Inr (Some result))"

definition rate_flow_completes :: "platform \<Rightarrow> nat \<Rightarrow> StoreRateAndReviewResult \<Rightarrow> bool" where
  "rate_flow_completes w n result =
     (init_apartment_outcome w = None \<and> GetDefault_outcome w = None \<and>
      GetForegroundWindow_result w \<noteq> None \<and> as_IInitializeWithWindow_outcome w = None \<and>
      RequestRateAndReviewAppAsync_outcome w = None \<and>
      list_all (\<lambda>j. operation_Status w j = Started) [0..<n] \<and>
      operation_Status w n = Completed \<and>
      operation_GetResults w = Inr (Some result))"

subsection \<open>A call without a foreground window\<close>


subsection \<open>The first exception of a call\<close>

text \<open>
  The exception that the platform makes a \<^verbatim>\<open>try\<close> block end in, if any, with the
  platform calls made up to it: the calls of the block in source order, up to the first
  that throws. For the rating request \<open>n\<close> is the number of passes of the wait loop.
  \<open>absorbed\<close> is what the \<^verbatim>\<open>catch\<close> clauses are expected to make of such an exception: the
  sentinel returned and the message in the calling thread's slot when the handler's
  assignment completes, and the exception of that assignment otherwise.
\<close>

definition license_failure :: "platform \<Rightarrow> (exn \<times> event list) option" where
  "license_failure w =
     (case init_apartment_outcome w of
        Some e \<Rightarrow> Some (e, [Call_init_apartment])
      | None \<Rightarrow>
     (case GetDefault_outcome w of
        Some e \<Rightarrow> Some (e, [Call_init_apartment, Call_GetDefault])
      | None \<Rightarrow>
     (case GetAppLicenseAsync_get w of
        Inl e \<Rightarrow> Some (e, [Call_init_apartment, Call_GetDefault, Call_GetAppLicenseAsync])
      | Inr _ \<Rightarrow> None)))"

definition purchase_failure :: "platform \<Rightarrow> string \<Rightarrow> (exn \<times> event list) option" where
  "purchase_failure w storeId =
     (case init_apartment_outcome w of
        Some e \<Rightarrow> Some (e, [Call_init_apartment])
      | None \<Rightarrow>
     (case GetDefault_outcome w of
        Some e \<Rightarrow> Some (e, [Call_init_apartment, Call_GetDefault])
      | None \<Rightarrow>
     (case GetForegroundWindow_result w of
        None \<Rightarrow> None
      | Some ownerWindow \<Rightarrow>
     (case as_IInitializeWithWindow_outcome w of
        Some e \<Rightarrow>
          Some (e, [Call_init_apartment, Call_GetDefault, Call_GetForegroundWindow,
                    Call_as_IInitializeWithWindow])
      | None \<Rightarrow>
     (case RequestPurchaseAsync_get w storeId of
        Inl e \<Rightarrow>
          Some (e, [Call_init_apartment, Call_GetDefault, Call_GetForegroundWindow,
                    Call_as_IInitializeWithWindow, Call_Initialize ownerWindow,
                    Call_RequestPurchaseAsync storeId])
      | Inr _ \<Rightarrow> None)))))"

definition rate_failure :: "platform \<Rightarrow> nat \<Rightarrow> (exn \<times> event list) option" where
  "rate_failure w n =
     (case init_apartment_outcome w of
        Some e \<Rightarrow> Some (e, [Call_init_apartment])
      | None \<Rightarrow>
     (case GetDefault_outcome w of
        Some e \<Rightarrow> Some (e, [Call_init_apartment, Call_GetDefault])
      | None \<Rightarrow>
     (case GetForegroundWindow_result w of
        None \<Rightarrow> None
      | Some ownerWindow \<Rightarrow>
     (case as_IInitializeWithWindow_outcome w of
        Some e \<Rightarrow>
          Some (e, [Call_init_apartment, Call_GetDefault, Call_GetForegroundWindow,
                    Call_as_IInitializeWithWindow])
      | None \<Rightarrow>
     (case RequestRateAndReviewAppAsync_outcome w of
        Some e \<Rightarrow>
          Some (e, [Call_init_apartment, Call_GetDefault, Call_GetForegroundWindow,
                    Call_as_IInitializeWithWindow, Call_Initialize ownerWindow,
                    Call_RequestRateAndReviewAppAsync])
      | None \<Rightarrow>
     (case operation_GetResults w of
        Inl e \<Rightarrow>
          Some (e, [Call_init_apartment, Call_GetDefault, Call_GetForegroundWindow,
                    Call_as_IInitializeWithWindow, Call_Initialize ownerWindow,
                    Call_RequestRateAndReviewAppAsync] @
                   concat (map (cycle_trace w) [0..<n]) @
                   [Call_Status (operation_Status w n), Call_GetResults])
      | Inr _ \<Rightarrow> None))))))"

definition absorbed ::
  "platform \<Rightarrow> tid \<Rightarrow> exn \<Rightarrow> event list \<Rightarrow> 'a \<Rightarrow> state \<Rightarrow> 'a outcome \<times> state" where
  "absorbed w t e calls sentinel s =
     (case handler_assignment_outcome w of
        None \<Rightarrow>
          (Inr sentinel,
           s\<lparr>g_lastError := (g_lastError s)(t := exn_message e), trace := trace s @ calls\<rparr>)
      | Some thrown \<Rightarrow> (Inl thrown, s\<lparr>trace := trace s @ calls\<rparr>))"

subsection \<open>Calls of several threads\<close>

text \<open>
  A call of an entry point, the value it hands back, and a sequence of calls, each made
  by the thread it is paired with, run one after the other. A call that does not return
  stops the sequence. \<open>with_slot t' x s\<close> is \<open>s\<close> with the slot of thread \<open>t'\<close>
  overwritten by \<open>x\<close>.
\<close>

datatype entry =
    Get_license_json platform
  | Get_last_error
  | Request_purchase platform "string option"
  | Request_rate_and_review platform
  | Free "addr option"

datatype returned = Buffer "addr option outcome" | Status "int outcome" | Void

fun perform :: "tid \<Rightarrow> entry \<Rightarrow> state \<Rightarrow> (returned \<times> state) option" where
  "perform t (Get_license_json w) s =
     (case msstore_winrt_get_license_json w t s of (r, s') \<Rightarrow> Some (Buffer r, s'))"
| "perform t Get_last_error s =
     (case msstore_winrt_get_last_error t s of (r, s') \<Rightarrow> Some (Buffer r, s'))"
| "perform t (Request_purchase w storeId) s =
     (case msstore_winrt_request_purchase w t storeId s of (r, s') \<Rightarrow> Some (Status r, s'))"
| "perform t (Request_rate_and_review w) s =
     (case msstore_winrt_request_rate_and_review w t s of
        None \<Rightarrow> None
      | Some (r, s') \<Rightarrow> Some (Status r, s'))"
| "perform t (Free ptr) s = Some (Void, msstore_winrt_free ptr s)"

fun run_calls :: "(tid \<times> entry) list \<Rightarrow> state \<Rightarrow> (returned list \<times> state) option" where
  "run_calls [] s = Some ([], s)"
| "run_calls ((t, c) # cs) s =
     (case perform t c s of
        None \<Rightarrow> None
      | Some (r, s1) \<Rightarrow>
          (case run_calls cs s1 of
             None \<Rightarrow> None
           | Some (rs, s2) \<Rightarrow> Some (r # rs, s2)))"

definition with_slot :: "tid \<Rightarrow> string \<Rightarrow> state \<Rightarrow> state" where
  "with_slot t' x s = s\<lparr>g_lastError := (g_lastError s)(t' := x)\<rparr>"

subsection \<open>Concrete platforms and states\<close>

text \<open>
  \<open>platform_ok\<close>: everything succeeds; the purchase is answered \<^verbatim>\<open>AlreadyPurchased\<close>, the
  rating operation is \<^verbatim>\<open>Started\<close> at two polls and then \<^verbatim>\<open>Completed\<close> with
  \<^verbatim>\<open>CanceledByUser\<close>, and two messages are queued during the first pass.
  \<open>platform_headless\<close>: the same without a foreground window. \<open>platform_failing\<close>: each
  asynchronous request ends in an exception, one of each kind. \<open>platform_handler_throws\<close>:
  the same, and the assignment inside a \<^verbatim>\<open>catch\<close> clause throws. \<open>state0\<close>: no error
  stored, nothing allocated, 64 bytes to hand out; \<open>state_exhausted\<close>: none to hand out.
\<close>

definition platform_ok :: platform where
  "platform_ok =
     \<lparr>init_apartment_outcome = None,
      GetDefault_outcome = None,
      GetForegroundWindow_result = Some 1,
      as_IInitializeWithWindow_outcome = None,
      GetAppLicenseAsync_get = Inr (Some \<lparr>ExtendedJsonData = ''{}''\<rparr>),
      RequestPurchaseAsync_get =
        (\<lambda>_. Inr (Some \<lparr>purchase_Status = StorePurchaseStatus_AlreadyPurchased\<rparr>)),
      RequestRateAndReviewAppAsync_outcome = None,
      operation_Status = (\<lambda>k. if k < 2 then Started else Completed),
      operation_GetResults = Inr (Some \<lparr>rate_Status = StoreRateAndReviewStatus_CanceledByUser\<rparr>),
      queued_messages = (\<lambda>k. if k = 0 then [7, 8] else []),
      handler_assignment_outcome = None\<rparr>"

definition platform_headless :: platform where
  "platform_headless = platform_ok\<lparr>GetForegroundWindow_result := None\<rparr>"

definition platform_failing :: platform where
  "platform_failing =
     platform_ok
       \<lparr>GetAppLicenseAsync_get := Inl (hresult_error ''The server is unavailable.''),
        RequestPurchaseAsync_get := (\<lambda>_. Inl (std_exception ''bad allocation'')),
        operation_GetResults := Inl other_exception\<rparr>"

definition platform_handler_throws :: platform where
  "platform_handler_throws =
     platform_failing\<lparr>handler_assignment_outcome := Some (std_exception ''bad allocation'')\<rparr>"

definition state0 :: state where
  "state0 = \<lparr>g_lastError = (\<lambda>_. []), blocks = [], avail = 64, trace = [], fault = False\<rparr>"

definition state_exhausted :: state where
  "state_exhausted = state0\<lparr>avail := 0\<rparr>"

section \<open>Lemmas\<close>

subsection \<open>The status mappings\<close>

lemmas StorePurchaseStatus_defs =
  StorePurchaseStatus_Succeeded_def StorePurchaseStatus_AlreadyPurchased_def
  StorePurchaseStatus_NotPurchased_def StorePurchaseStatus_NetworkError_def
  StorePurchaseStatus_ServerError_def

lemmas StoreRateAndReviewStatus_defs =
  StoreRateAndReviewStatus_Succeeded_def StoreRateAndReviewStatus_CanceledByUser_def
  StoreRateAndReviewStatus_NetworkError_def StoreRateAndReviewStatus_Error_def

lemma map_purchase_status_range: "map_purchase_status st \<in> {0, 1, 2, 3, 4, 5}"
  by (simp add: map_purchase_status_def)

lemma map_rate_and_review_status_range: "map_rate_and_review_status st \<in> {0, 1, 2, 3, 4}"
  by (simp add: map_rate_and_review_status_def)

lemma map_purchase_status_nonneg: "map_purchase_status st \<noteq> - 1"
  using map_purchase_status_range [of st] by auto

lemma map_rate_and_review_status_nonneg: "map_rate_and_review_status st \<noteq> - 1"
  using map_rate_and_review_status_range [of st] by auto

subsection \<open>The wait loop\<close>

lemma pump_messages_trace: "pump_messages ms s = s\<lparr>trace := trace s @ pump_trace ms\<rparr>"
  by (induction ms arbitrary: s) (simp_all add: pump_trace_def log_call_def)

lemma wait_pass:
  "operation_Status w k = Started \<Longrightarrow>
   wait_for_rate_and_review_result w k s =
   wait_for_rate_and_review_result w (Suc k) (s\<lparr>trace := trace s @ cycle_trace w k\<rparr>)"
  by (subst wait_for_rate_and_review_result.simps)
     (simp add: pump_messages_trace cycle_trace_def log_call_def)

lemma wait_done:
  "operation_Status w k \<noteq> Started \<Longrightarrow>
   wait_for_rate_and_review_result w k s =
   Some (operation_GetResults w,
         s\<lparr>trace := trace s @ [Call_Status (operation_Status w k), Call_GetResults]\<rparr>)"
  by (subst wait_for_rate_and_review_result.simps) (simp add: log_call_def)

lemma wait_passes:
  "(\<forall>j<n. operation_Status w (k + j) = Started) \<Longrightarrow>
   wait_for_rate_and_review_result w k s =
   wait_for_rate_and_review_result w (k + n)
     (s\<lparr>trace := trace s @ concat (map (cycle_trace w) [k..<k + n])\<rparr>)"
proof (induction n arbitrary: k s)
  case 0
  then show ?case by simp
next
  case (Suc n)
  have first: "operation_Status w k = Started"
    using Suc.prems by (metis add.right_neutral zero_less_Suc)
  have rest: "\<forall>j<n. operation_Status w (Suc k + j) = Started"
    using Suc.prems by (metis add_Suc_shift Suc_less_eq)
  have cycles: "[k..<k + Suc n] = k # [Suc k..<Suc k + n]"
    by (simp add: upt_conv_Cons del: upt_Suc)
  show ?case
    unfolding cycles wait_pass [OF first] Suc.IH [OF rest] by simp
qed

lemma wait_from:
  assumes "\<forall>j<n. operation_Status w (k + j) = Started" and "operation_Status w (k + n) \<noteq> Started"
  shows "wait_for_rate_and_review_result w k s =
         Some (operation_GetResults w,
               s\<lparr>trace := trace s @ concat (map (cycle_trace w) [k..<k + n]) @
                              [Call_Status (operation_Status w (k + n)), Call_GetResults]\<rparr>)"
  by (simp add: wait_passes [OF assms(1)] wait_done [OF assms(2)])

lemma wait_completes:
  assumes "\<forall>j<n. operation_Status w j = Started" and "operation_Status w n \<noteq> Started"
  shows "wait_for_rate_and_review_result w 0 s =
         Some (operation_GetResults w,
               s\<lparr>trace := trace s @ concat (map (cycle_trace w) [0..<n]) @
                              [Call_Status (operation_Status w n), Call_GetResults]\<rparr>)"
proof -
  have "\<forall>j<n. operation_Status w (0 + j) = Started"
    using assms(1) by simp
  from wait_passes [OF this] show ?thesis
    by (simp add: wait_done [OF assms(2)])
qed

lemma wait_returns_only_when_left_Started:
  assumes "wait_for_rate_and_review_result w k s = Some r"
  shows "\<exists>n. (\<forall>j<n. operation_Status w (k + j) = Started) \<and> operation_Status w (k + n) \<noteq> Started"
proof (rule wait_for_rate_and_review_result.raw_induct
    [where P = "\<lambda>w k s r. \<exists>n. (\<forall>j<n. operation_Status w (k + j) = Started) \<and>
                               operation_Status w (k + n) \<noteq> Started", OF _ assms])
  fix wait' :: "platform \<Rightarrow> nat \<Rightarrow> state \<Rightarrow> (StoreRateAndReviewResult option outcome \<times> state) option"
    and w k s r
  assume IH: "\<And>w k s r. wait' w k s = Some r \<Longrightarrow>
      \<exists>n. (\<forall>j<n. operation_Status w (k + j) = Started) \<and> operation_Status w (k + n) \<noteq> Started"
  assume step: "(if operation_Status w k = Started
      then wait' w (Suc k)
            (log_call Call_MsgWaitForMultipleObjectsEx
              (pump_messages (queued_messages w k) (log_call (Call_Status Started) s)))
      else Some (operation_GetResults w,
             log_call Call_GetResults (log_call (Call_Status (operation_Status w k)) s))) =
     Some r"
  show "\<exists>n. (\<forall>j<n. operation_Status w (k + j) = Started) \<and> operation_Status w (k + n) \<noteq> Started"
  proof (cases "operation_Status w k = Started")
    case True
    with step IH obtain n where n: "\<forall>j<n. operation_Status w (Suc k + j) = Started"
      "operation_Status w (Suc k + n) \<noteq> Started"
      by fastforce
    have "\<forall>j<Suc n. operation_Status w (k + j) = Started"
    proof (intro allI impI)
      fix j assume "j < Suc n"
      then show "operation_Status w (k + j) = Started"
        using True n(1) by (cases j) auto
    qed
    moreover have "operation_Status w (k + Suc n) \<noteq> Started"
      using n(2) by simp
    ultimately show ?thesis by blast
  next
    case False
    then have "(\<forall>j<0. operation_Status w (k + j) = Started) \<and> operation_Status w (k + 0) \<noteq> Started"
      by simp
    then show ?thesis by blast
  qed
qed

lemma wait_any_state:
  assumes "wait_for_rate_and_review_result w k s = Some (r, s1)"
  shows "\<exists>z1. wait_for_rate_and_review_result w k z = Some (r, z1)"
proof -
  from wait_returns_only_when_left_Started [OF assms] obtain n where
    n: "\<forall>j<n. operation_Status w (k + j) = Started" "operation_Status w (k + n) \<noteq> Started"
    by blast
  from wait_from [OF n, of s] assms have "r = operation_GetResults w"
    by simp
  then show ?thesis
    by (simp add: wait_from [OF n])
qed

lemma wait_outcome:
  assumes "wait_for_rate_and_review_result w k s = Some (r, s1)"
  shows "r = operation_GetResults w"
proof -
  from wait_returns_only_when_left_Started [OF assms] obtain n where
    n: "\<forall>j<n. operation_Status w (k + j) = Started" "operation_Status w (k + n) \<noteq> Started"
    by blast
  from wait_from [OF n, of s] assms show ?thesis
    by auto
qed

lemma wait_frame:
  assumes "wait_for_rate_and_review_result w k s = Some (r, s1)"
  shows "g_lastError s1 = g_lastError s"
proof -
  from wait_returns_only_when_left_Started [OF assms] obtain n where
    n: "\<forall>j<n. operation_Status w (k + j) = Started" "operation_Status w (k + n) \<noteq> Started"
    by blast
  from wait_from [OF n, of s] assms show ?thesis
    by auto
qed

lemma no_GetResults_in_cycles:
  "filter (\<lambda>e. e = Call_GetResults) (concat (map (cycle_trace w) ks)) = []"
  by (induction ks) (auto simp: cycle_trace_def pump_trace_def filter_concat)

subsection \<open>The allocator\<close>

lemma fresh_addr_unused: "map_of bs (fresh_addr bs) = None"
proof -
  have "a \<le> fold max (map fst bs) 0" if "a \<in> fst ` set bs" for a
  proof -
    have "fold max (map fst bs) 0 = Max (set (0 # map fst bs))"
      by (simp only: Max.set_eq_fold)
    moreover have "a \<le> Max (set (0 # map fst bs))"
      using that by (intro Max_ge) auto
    ultimately show ?thesis by simp
  qed
  then have "fresh_addr bs \<notin> fst ` set bs"
    by (fastforce simp: fresh_addr_def)
  then show ?thesis
    by (simp add: map_of_eq_None_iff)
qed

lemma memcpy_other_blocks:
  "map_of bs p = None \<Longrightarrow>
   map (\<lambda>(a, bytes). if a = p then (a, f bytes) else (a, bytes)) bs = bs"
  by (induction bs) (auto split: if_splits)

lemma filter_other_blocks:
  "map_of bs p = None \<Longrightarrow> filter (\<lambda>(a, _). a \<noteq> p) bs = bs"
  by (induction bs) (auto split: if_splits)

lemma dup_string_allocates:
  assumes "length val < avail s"
  shows "dup_string val s =
           (Some (fresh_addr (blocks s)),
            s\<lparr>blocks := (fresh_addr (blocks s), val @ [CHR 0x00]) # blocks s,
              avail := avail s - (length val + 1)\<rparr>)"
  using assms
  by (simp add: dup_string_def CoTaskMemAlloc_def memcpy_def
      memcpy_other_blocks [OF fresh_addr_unused])

lemma dup_string_exhausted:
  assumes "avail s \<le> length val"
  shows "dup_string val s = (None, s)"
  using assms by (simp add: dup_string_def CoTaskMemAlloc_def)

lemma dup_string_cases:
  "dup_string val s = (None, s) \<and> avail s \<le> length val \<or>
   dup_string val s =
           (Some (fresh_addr (blocks s)),
            s\<lparr>blocks := (fresh_addr (blocks s), val @ [CHR 0x00]) # blocks s,
              avail := avail s - (length val + 1)\<rparr>) \<and> length val < avail s"
  using dup_string_allocates [of val s] dup_string_exhausted [of s val]
  by (cases "length val < avail s") auto

lemma dup_string_frame:
  assumes "dup_string val s = (b, s1)"
  shows "g_lastError s1 = g_lastError s \<and> trace s1 = trace s \<and> fault s1 = fault s \<and>
         (b = None \<longrightarrow> avail s \<le> length val \<and> s1 = s)"
  using assms dup_string_cases [of val s] by auto

lemma free_after_dup_string:
  assumes "dup_string val s = (Some p, s')"
  shows "CoTaskMemFree p s' = s'\<lparr>blocks := blocks s, avail := avail s\<rparr>"
proof -
  from assms dup_string_cases [of val s]
  have p: "p = fresh_addr (blocks s)"
    and s': "s' = s\<lparr>blocks := (fresh_addr (blocks s), val @ [CHR 0x00]) # blocks s,
              avail := avail s - (length val + 1)\<rparr>"
    and room: "length val < avail s"
    by auto
  show ?thesis
    using room by (simp add: p s' CoTaskMemFree_def filter_other_blocks [OF fresh_addr_unused])
qed

subsection \<open>The catch clauses and the entry points\<close>

lemma catch_clauses_Inl:
  "catch_clauses w t sentinel (Inl e, s) = store_in_handler w t (exn_message e) sentinel s"
  by (cases e) (simp_all add: catch_clauses_def)

lemma catch_clauses_Inr: "catch_clauses w t sentinel (Inr v, s) = (Inr v, s)"
  by (simp add: catch_clauses_def)

lemmas platform_call_defs =
  init_apartment_def StoreContext_GetDefault_def initialize_store_ui_owner_def

lemma store_id_cases:
  obtains (invalid) "storeId = None \<or> (\<exists>bytes. storeId = Some bytes \<and> c_str bytes = [])"
  | (valid) bytes where "storeId = Some bytes" and "c_str bytes \<noteq> []"
  by (cases storeId) auto

lemma c_str_store_id: "c_str ''9NBLGGH4R315'' = ''9NBLGGH4R315''"
  by (simp add: c_str_def)

lemma list_all_upt: "list_all P [0..<n] = (\<forall>j<n. P j)"
  by (auto simp: list_all_iff)

lemma purchase_completed:
  assumes "purchase_flow_completes w storeId result"
  shows "fst (msstore_winrt_request_purchase w t storeId s) =
         Inr (map_purchase_status (purchase_Status result))"
  using assms
  by (auto simp: purchase_flow_completes_def msstore_winrt_request_purchase_def
      request_purchase_try_def catch_clauses_def init_apartment_def StoreContext_GetDefault_def
      initialize_store_ui_owner_def Let_def split: option.splits)

lemma rate_completed:
  assumes "rate_flow_completes w n result"
  shows "\<exists>s'. msstore_winrt_request_rate_and_review w t s =
         Some (Inr (map_rate_and_review_status (rate_Status result)), s')"
proof -
  have st: "\<forall>j<n. operation_Status w j = Started" "operation_Status w n \<noteq> Started"
    using assms by (simp_all add: rate_flow_completes_def list_all_upt)
  show ?thesis
    using assms
    by (auto simp: rate_flow_completes_def msstore_winrt_request_rate_and_review_def
      request_rate_and_review_try_def catch_clauses_def init_apartment_def StoreContext_GetDefault_def
      initialize_store_ui_owner_def Let_def wait_completes [OF st] split: option.splits)
qed

lemma license_buffer:
  assumes "msstore_winrt_get_license_json w t s = (Inr (Some q), s')"
  shows "\<exists>val s4. dup_string val s4 = (Some q, s') \<and> blocks s4 = blocks s \<and> avail s4 = avail s \<and>
           fault s4 = fault s"
  using assms
  by (fastforce simp: msstore_winrt_get_license_json_def get_license_json_try_def platform_call_defs
      catch_clauses_Inl store_in_handler_def catch_clauses_Inr set_g_lastError_def log_call_def Let_def
      split: option.splits sum.splits prod.splits)

lemma license_slot:
  assumes "msstore_winrt_get_license_json w t s = (Inr r, s')"
  shows "(r \<noteq> None \<longrightarrow> g_lastError s' t = []) \<and>
     (r = None \<longrightarrow>
        (\<exists>e s1. get_license_json_try w t s = (Inl e, s1) \<and> g_lastError s' t = exn_message e) \<or>
        (init_apartment_outcome w = None \<and> GetDefault_outcome w = None \<and>
         GetAppLicenseAsync_get w = Inr None \<and> g_lastError s' t = ''StoreAppLicense is null.'') \<or>
        (init_apartment_outcome w = None \<and> GetDefault_outcome w = None \<and>
         (\<exists>license. GetAppLicenseAsync_get w = Inr (Some license) \<and>
            avail s \<le> length (ExtendedJsonData license))))"
proof (cases "get_license_json_try w t s")
  case (Pair o' s1)
  show ?thesis
  proof (cases o')
    case (Inl e)
    with Pair assms show ?thesis
      by (auto simp: msstore_winrt_get_license_json_def catch_clauses_Inl store_in_handler_def
          set_g_lastError_def split: option.splits)
  next
    case (Inr v)
    with Pair assms have rs: "r = v" "s' = s1"
      by (simp_all add: msstore_winrt_get_license_json_def catch_clauses_Inr)
    from Pair Inr show ?thesis
      unfolding rs get_license_json_try_def platform_call_defs
      by (auto simp: set_g_lastError_def log_call_def Let_def
          split: option.splits sum.splits prod.splits dest!: dup_string_frame)
  qed
qed

lemma purchase_slot:
  assumes "msstore_winrt_request_purchase w t storeId s = (Inr c, s')"
  shows "(c \<noteq> - 1 \<longrightarrow> 0 \<le> c \<and> g_lastError s' t = []) \<and>
     (c = - 1 \<longrightarrow>
        (\<exists>e s1. request_purchase_try w t storeId s = (Inl e, s1) \<and>
           g_lastError s' t = exn_message e) \<or>
        ((storeId = None \<or> (\<exists>bytes. storeId = Some bytes \<and> c_str bytes = [])) \<and>
         g_lastError s' t = ''Store ID is null or empty.'') \<or>
        (init_apartment_outcome w = None \<and> GetDefault_outcome w = None \<and>
         GetForegroundWindow_result w = None \<and>
         g_lastError s' t = ''No foreground window handle available for Store UI.'') \<or>
        (init_apartment_outcome w = None \<and> GetDefault_outcome w = None \<and>
         as_IInitializeWithWindow_outcome w = None \<and>
         (\<exists>bytes. storeId = Some bytes \<and> RequestPurchaseAsync_get w (c_str bytes) = Inr None) \<and>
         g_lastError s' t = ''StorePurchaseResult is null.''))"
proof (cases "request_purchase_try w t storeId s")
  case (Pair o' s1)
  show ?thesis
  proof (cases o')
    case (Inl e)
    with Pair assms show ?thesis
      by (auto simp: msstore_winrt_request_purchase_def catch_clauses_Inl store_in_handler_def
          set_g_lastError_def split: option.splits)
  next
    case (Inr v)
    with Pair assms have rs: "c = v" "s' = s1"
      by (simp_all add: msstore_winrt_request_purchase_def catch_clauses_Inr)
    have range: "0 \<le> map_purchase_status st \<and> map_purchase_status st \<noteq> - 1" for st
      using map_purchase_status_range [of st] by auto
    show ?thesis
    proof (cases storeId rule: store_id_cases)
      case invalid
      with Pair Inr show ?thesis
        unfolding rs request_purchase_try_def
        by (auto simp: set_g_lastError_def)
    next
      case (valid bytes)
      with Pair Inr show ?thesis
        unfolding rs request_purchase_try_def platform_call_defs
        by (auto simp: set_g_lastError_def log_call_def Let_def range
            split: option.splits sum.splits prod.splits bool.splits)
    qed
  qed
qed

lemma rate_slot:
  assumes "msstore_winrt_request_rate_and_review w t s = Some (Inr c, s')"
  shows "(c \<noteq> - 1 \<longrightarrow> 0 \<le> c \<and> g_lastError s' t = []) \<and>
     (c = - 1 \<longrightarrow>
        (\<exists>e s1. request_rate_and_review_try w t s = Some (Inl e, s1) \<and>
           g_lastError s' t = exn_message e) \<or>
        (init_apartment_outcome w = None \<and> GetDefault_outcome w = None \<and>
         GetForegroundWindow_result w = None \<and>
         g_lastError s' t = ''No foreground window handle available for Store UI.'') \<or>
        (init_apartment_outcome w = None \<and> GetDefault_outcome w = None \<and>
         as_IInitializeWithWindow_outcome w = None \<and>
         RequestRateAndReviewAppAsync_outcome w = None \<and>
         operation_GetResults w = Inr None \<and>
         g_lastError s' t = ''StoreRateAndReviewResult is null.''))"
proof -
  from assms obtain o' s1 where body: "request_rate_and_review_try w t s = Some (o', s1)"
    and caught: "catch_clauses w t (- 1) (o', s1) = (Inr c, s')"
    by (auto simp: msstore_winrt_request_rate_and_review_def)
  show ?thesis
  proof (cases o')
    case (Inl e)
    with body caught show ?thesis
      by (auto simp: catch_clauses_Inl store_in_handler_def set_g_lastError_def
          split: option.splits)
  next
    case (Inr v)
    with caught have rs: "c = v" "s' = s1"
      by (simp_all add: catch_clauses_Inr)
    have range: "0 \<le> map_rate_and_review_status st \<and> map_rate_and_review_status st \<noteq> - 1" for st
      using map_rate_and_review_status_range [of st] by auto
    from body Inr show ?thesis
      unfolding rs request_rate_and_review_try_def platform_call_defs
      by (auto simp: set_g_lastError_def log_call_def Let_def range
          split: option.splits sum.splits prod.splits bool.splits dest: wait_outcome)
  qed
qed

lemma get_last_error_slot:
  "g_lastError (snd (msstore_winrt_get_last_error t s)) = g_lastError s"
  using dup_string_frame [of "g_lastError s t" s]
  by (cases "dup_string (g_lastError s t) s") (simp add: msstore_winrt_get_last_error_def)

text \<open>
  Whichever platform call of a \<^verbatim>\<open>try\<close> block throws first, the entry point makes of its
  exception what \<open>absorbed\<close> says, after exactly the platform calls up to it.
\<close>

lemma license_failure_absorbed:
  assumes "license_failure w = Some (e, calls)"
  shows "msstore_winrt_get_license_json w t s = absorbed w t e calls None s"
  using assms
  by (auto simp: license_failure_def absorbed_def msstore_winrt_get_license_json_def
      get_license_json_try_def platform_call_defs catch_clauses_Inl store_in_handler_def
      set_g_lastError_def log_call_def split: option.splits sum.splits)

lemma purchase_failure_absorbed:
  assumes "c_str bytes \<noteq> []" and "purchase_failure w (c_str bytes) = Some (e, calls)"
  shows "msstore_winrt_request_purchase w t (Some bytes) s = absorbed w t e calls (- 1) s"
  using assms
  by (auto simp: purchase_failure_def absorbed_def msstore_winrt_request_purchase_def
      request_purchase_try_def platform_call_defs catch_clauses_Inl store_in_handler_def
      set_g_lastError_def log_call_def Let_def split: option.splits sum.splits)

lemma rate_failure_absorbed:
  assumes "\<forall>j<n. operation_Status w j = Started" and "operation_Status w n \<noteq> Started"
    and "rate_failure w n = Some (e, calls)"
  shows "msstore_winrt_request_rate_and_review w t s = Some (absorbed w t e calls (- 1) s)"
  using assms(3)
  by (auto simp: rate_failure_def absorbed_def msstore_winrt_request_rate_and_review_def
      request_rate_and_review_try_def platform_call_defs catch_clauses_Inl store_in_handler_def
      set_g_lastError_def log_call_def Let_def wait_completes [OF assms(1,2)]
      split: option.splits sum.splits)

subsection \<open>Another thread's slot\<close>

lemma with_slot_log_call: "log_call e (with_slot t' x s) = with_slot t' x (log_call e s)"
  by (simp add: log_call_def with_slot_def)

lemma with_slot_set:
  "t \<noteq> t' \<Longrightarrow> set_g_lastError t m (with_slot t' x s) = with_slot t' x (set_g_lastError t m s)"
  by (simp add: set_g_lastError_def with_slot_def fun_upd_twist)

lemma with_slot_get: "t \<noteq> t' \<Longrightarrow> g_lastError (with_slot t' x s) t = g_lastError s t"
  by (simp add: with_slot_def)

lemma with_slot_dup_string:
  "dup_string val (with_slot t' x s) = apsnd (with_slot t' x) (dup_string val s)"
  by (simp add: dup_string_def CoTaskMemAlloc_def memcpy_def with_slot_def)

lemma with_slot_free:
  "msstore_winrt_free ptr (with_slot t' x s) = with_slot t' x (msstore_winrt_free ptr s)"
  by (simp add: msstore_winrt_free_def CoTaskMemFree_def with_slot_def
      split: option.splits)

lemma with_slot_init_apartment:
  "init_apartment w (with_slot t' x s) = apsnd (with_slot t' x) (init_apartment w s)"
  by (simp add: init_apartment_def with_slot_log_call)

lemma with_slot_GetDefault:
  "StoreContext_GetDefault w (with_slot t' x s) = apsnd (with_slot t' x) (StoreContext_GetDefault w s)"
  by (simp add: StoreContext_GetDefault_def with_slot_log_call)

lemma with_slot_ui_owner:
  "t \<noteq> t' \<Longrightarrow>
   initialize_store_ui_owner w t (with_slot t' x s) =
   apsnd (with_slot t' x) (initialize_store_ui_owner w t s)"
  by (simp add: initialize_store_ui_owner_def with_slot_log_call with_slot_set Let_def
      split: option.splits)

lemma with_slot_catch:
  "t \<noteq> t' \<Longrightarrow>
   catch_clauses w t sentinel (apsnd (with_slot t' x) r) =
   apsnd (with_slot t' x) (catch_clauses w t sentinel r)"
  by (cases r; cases "fst r")
     (auto simp: catch_clauses_Inl store_in_handler_def catch_clauses_Inr with_slot_set
       split: option.splits)

lemma with_slot_wait:
  "wait_for_rate_and_review_result w k (with_slot t' x s) =
   map_option (apsnd (with_slot t' x)) (wait_for_rate_and_review_result w k s)"
proof (cases "\<exists>n. (\<forall>j<n. operation_Status w (k + j) = Started) \<and> operation_Status w (k + n) \<noteq> Started")
  case True
  then obtain n where n: "\<forall>j<n. operation_Status w (k + j) = Started"
    "operation_Status w (k + n) \<noteq> Started"
    by blast
  show ?thesis
    by (simp add: wait_from [OF n] with_slot_def)
next
  case False
  then have "wait_for_rate_and_review_result w k s' = None" for s'
    using wait_returns_only_when_left_Started [of w k s'] by (cases "wait_for_rate_and_review_result w k s'") auto
  then show ?thesis by simp
qed

lemma with_slot_license:
  assumes "t \<noteq> t'"
  shows "msstore_winrt_get_license_json w t (with_slot t' x s) =
         apsnd (with_slot t' x) (msstore_winrt_get_license_json w t s)"
proof -
  have "get_license_json_try w t (with_slot t' x s) =
        apsnd (with_slot t' x) (get_license_json_try w t s)"
    using assms
    by (auto simp: get_license_json_try_def with_slot_init_apartment with_slot_GetDefault
        with_slot_log_call with_slot_set with_slot_dup_string Let_def
        split: prod.splits sum.splits option.splits)
  then show ?thesis
    by (simp add: msstore_winrt_get_license_json_def with_slot_catch [OF assms])
qed

lemma with_slot_last_error:
  assumes "t \<noteq> t'"
  shows "msstore_winrt_get_last_error t (with_slot t' x s) =
         apsnd (with_slot t' x) (msstore_winrt_get_last_error t s)"
  using assms
  by (simp add: msstore_winrt_get_last_error_def with_slot_get with_slot_dup_string
      split: prod.splits)

lemma with_slot_purchase:
  assumes "t \<noteq> t'"
  shows "msstore_winrt_request_purchase w t storeId (with_slot t' x s) =
         apsnd (with_slot t' x) (msstore_winrt_request_purchase w t storeId s)"
proof -
  have "request_purchase_try w t storeId (with_slot t' x s) =
        apsnd (with_slot t' x) (request_purchase_try w t storeId s)"
  proof (cases storeId rule: store_id_cases)
    case invalid
    with assms show ?thesis
      by (auto simp: request_purchase_try_def with_slot_set)
  next
    case (valid bytes)
    with assms show ?thesis
      by (auto simp: request_purchase_try_def with_slot_init_apartment with_slot_GetDefault
          with_slot_ui_owner with_slot_log_call with_slot_set
          split: prod.splits sum.splits option.splits bool.splits)
  qed
  then show ?thesis
    by (simp add: msstore_winrt_request_purchase_def with_slot_catch [OF assms])
qed

lemma with_slot_rate:
  assumes "t \<noteq> t'"
  shows "msstore_winrt_request_rate_and_review w t (with_slot t' x s) =
         map_option (apsnd (with_slot t' x)) (msstore_winrt_request_rate_and_review w t s)"
proof -
  have "request_rate_and_review_try w t (with_slot t' x s) =
        map_option (apsnd (with_slot t' x)) (request_rate_and_review_try w t s)"
    using assms
    by (auto simp: request_rate_and_review_try_def with_slot_init_apartment with_slot_GetDefault
        with_slot_ui_owner with_slot_log_call with_slot_set with_slot_wait
        split: prod.splits sum.splits option.splits bool.splits)
  then show ?thesis
    by (simp add: msstore_winrt_request_rate_and_review_def with_slot_catch [OF assms]
        option.map_comp comp_def)
qed

lemma with_slot_perform:
  assumes "t \<noteq> t'"
  shows "perform t c (with_slot t' x s) = map_option (apsnd (with_slot t' x)) (perform t c s)"
  by (cases c)
     (auto simp: with_slot_license [OF assms] with_slot_last_error [OF assms]
       with_slot_purchase [OF assms] with_slot_rate [OF assms] with_slot_free
       split: prod.splits option.splits)

lemma with_slot_run_calls:
  assumes "\<forall>(u, c) \<in> set cs. u \<noteq> t'"
  shows "run_calls cs (with_slot t' x s) = map_option (apsnd (with_slot t' x)) (run_calls cs s)"
  using assms
proof (induction cs arbitrary: s)
  case Nil
  then show ?case by simp
next
  case (Cons a cs)
  obtain t c where a: "a = (t, c)" by (cases a)
  with Cons.prems have t: "t \<noteq> t'" and rest: "\<forall>(u, c) \<in> set cs. u \<noteq> t'"
    by auto
  show ?case
    by (auto simp: a with_slot_perform [OF t] Cons.IH [OF rest] split: option.splits)
qed

lemma license_own_slot:
  assumes "g_lastError s t = g_lastError z t"
  shows "g_lastError (snd (msstore_winrt_get_license_json w t s)) t =
         g_lastError (snd (msstore_winrt_get_license_json w t z)) t"
  using assms
  by (auto simp: msstore_winrt_get_license_json_def get_license_json_try_def platform_call_defs
      catch_clauses_Inl store_in_handler_def catch_clauses_Inr set_g_lastError_def log_call_def
      split: prod.splits sum.splits option.splits dest!: dup_string_frame)

lemma purchase_own_slot:
  assumes "g_lastError s t = g_lastError z t"
  shows "g_lastError (snd (msstore_winrt_request_purchase w t storeId s)) t =
         g_lastError (snd (msstore_winrt_request_purchase w t storeId z)) t"
proof (cases storeId rule: store_id_cases)
  case invalid
  then show ?thesis
    by (auto simp: msstore_winrt_request_purchase_def request_purchase_try_def
        catch_clauses_Inr set_g_lastError_def)
next
  case (valid bytes)
  with assms show ?thesis
    by (auto simp: msstore_winrt_request_purchase_def request_purchase_try_def platform_call_defs
        catch_clauses_Inl store_in_handler_def catch_clauses_Inr set_g_lastError_def log_call_def Let_def
        split: prod.splits sum.splits option.splits bool.splits)
qed

lemma rate_own_slot:
  assumes "msstore_winrt_request_rate_and_review w t s = Some (r, s1)"
    and same: "g_lastError s t = g_lastError z t"
  shows "\<exists>r' z1. msstore_winrt_request_rate_and_review w t z = Some (r', z1) \<and>
           g_lastError z1 t = g_lastError s1 t"
proof (cases "GetForegroundWindow_result w = None \<or> init_apartment_outcome w \<noteq> None \<or>
    GetDefault_outcome w \<noteq> None \<or> as_IInitializeWithWindow_outcome w \<noteq> None \<or>
    RequestRateAndReviewAppAsync_outcome w \<noteq> None")
  case True
  with assms show ?thesis
    by (auto simp: msstore_winrt_request_rate_and_review_def request_rate_and_review_try_def
        platform_call_defs catch_clauses_Inl store_in_handler_def catch_clauses_Inr set_g_lastError_def log_call_def Let_def
        split: prod.splits sum.splits option.splits bool.splits)
next
  case False
  let ?pre = "\<lambda>x. log_call Call_RequestRateAndReviewAppAsync
      (log_call (Call_Initialize (the (GetForegroundWindow_result w)))
        (log_call Call_as_IInitializeWithWindow
          (log_call Call_GetForegroundWindow
            (log_call Call_GetDefault (log_call Call_init_apartment x)))))"
  have body: "request_rate_and_review_try w t x =
      (case wait_for_rate_and_review_result w 0 (?pre x) of
        None \<Rightarrow> None
      | Some (Inl e, s5) \<Rightarrow> Some (Inl e, s5)
      | Some (Inr None, s5) \<Rightarrow>
          Some (Inr (- 1), set_g_lastError t ''StoreRateAndReviewResult is null.'' s5)
      | Some (Inr (Some result), s5) \<Rightarrow>
          Some (Inr (map_rate_and_review_status (rate_Status result)),
                set_g_lastError t [] s5))" for x
    using False
    by (auto simp: request_rate_and_review_try_def platform_call_defs Let_def)
  from assms obtain o5 s5 where w5: "wait_for_rate_and_review_result w 0 (?pre s) = Some (o5, s5)"
    by (auto simp: msstore_winrt_request_rate_and_review_def body split: option.splits)
  from wait_any_state [OF this, of "?pre z"] obtain z5 where
    z5: "wait_for_rate_and_review_result w 0 (?pre z) = Some (o5, z5)"
    by blast
  have "g_lastError s5 t = g_lastError z5 t"
    using wait_frame [OF w5] wait_frame [OF z5] same by (simp add: log_call_def)
  with assms show ?thesis
    by (auto simp: msstore_winrt_request_rate_and_review_def body w5 z5 catch_clauses_Inl store_in_handler_def
        catch_clauses_Inr set_g_lastError_def split: sum.splits option.splits)
qed

lemma perform_own_slot:
  assumes "g_lastError s t = g_lastError z t" and "perform t c s = Some (r, s1)"
  shows "\<exists>r' z1. perform t c z = Some (r', z1) \<and> g_lastError z1 t = g_lastError s1 t"
proof (cases c)
  case (Get_license_json w)
  with assms license_own_slot [OF assms(1), of w] show ?thesis
    by (auto split: prod.splits)
next
  case Get_last_error
  with assms get_last_error_slot [of t s] get_last_error_slot [of t z] show ?thesis
    by (auto split: prod.splits)
next
  case (Request_purchase w storeId)
  with assms purchase_own_slot [OF assms(1), of w storeId] show ?thesis
    by (auto split: prod.splits)
next
  case (Request_rate_and_review w)
  with assms obtain o' where "msstore_winrt_request_rate_and_review w t s = Some (o', s1)"
    by (auto split: option.splits)
  from rate_own_slot [OF this assms(1)] Request_rate_and_review show ?thesis
    by auto
next
  case (Free ptr)
  with assms show ?thesis
    by (auto simp: msstore_winrt_free_def CoTaskMemFree_def split: option.splits)
qed

lemma perform_other_slot:
  assumes "u \<noteq> t" and "perform u c s = Some (r, s1)"
  shows "g_lastError s1 t = g_lastError s t"
proof -
  have "with_slot t (g_lastError s t) s = s"
    by (simp add: with_slot_def)
  with with_slot_perform [OF assms(1), of c "g_lastError s t" s] assms(2)
  have "s1 = with_slot t (g_lastError s t) s1"
    by auto
  then have "g_lastError s1 t = g_lastError (with_slot t (g_lastError s t) s1) t"
    by simp
  then show ?thesis
    by (simp add: with_slot_def)
qed

lemma run_calls_own_slot:
  assumes "g_lastError s t = g_lastError z t" and "run_calls cs s = Some (rs, s')"
  shows "\<exists>rs' z'. run_calls (filter (\<lambda>(u, c). u = t) cs) z = Some (rs', z') \<and>
           g_lastError z' t = g_lastError s' t"
  using assms
proof (induction cs arbitrary: s z rs)
  case Nil
  then show ?case by simp
next
  case (Cons a cs)
  obtain u c where a: "a = (u, c)" by (cases a)
  from Cons.prems(2) obtain r s1 rs1 where
    step: "perform u c s = Some (r, s1)" and rest: "run_calls cs s1 = Some (rs1, s')"
    by (auto simp: a split: option.splits)
  show ?case
  proof (cases "u = t")
    case True
    from perform_own_slot [OF Cons.prems(1) step [unfolded True]] obtain r' z1 where
      z1: "perform t c z = Some (r', z1)" "g_lastError z1 t = g_lastError s1 t"
      by blast
    from Cons.IH [OF z1(2) [symmetric] rest] obtain rs' z' where
      "run_calls (filter (\<lambda>(u, c). u = t) cs) z1 = Some (rs', z')"
      "g_lastError z' t = g_lastError s' t"
      by blast
    with z1(1) True show ?thesis
      by (simp add: a)
  next
    case False
    from perform_other_slot [OF False step] Cons.prems(1)
    have "g_lastError s1 t = g_lastError z t"
      by simp
    from Cons.IH [OF this rest] False show ?thesis
      by (simp add: a)
  qed
qed

section \<open>The claims\<close>

subsection \<open>C1: the error slot after a call\<close>

text \<open>
  C1, as amended. For the three operation entry points (license fetch, purchase, rating):
  a call that returns a non-null buffer or a status other than \<open>-1\<close> leaves the calling
  thread's slot empty, and the status is non-negative; a call that returns \<open>-1\<close> or a
  null buffer leaves in the slot the message of its failure, which is one of the fixed
  messages or the message \<open>exn_message\<close> of the exception that left the \<^verbatim>\<open>try\<close> block: the
  exception's own message, empty when the exception carries an empty one. The one
  exception is a license fetch that initialised the apartment, got the store context and
  obtained a license, and returns null because the result buffer could not be
  allocated: nothing is said about the slot then.
  \<^verbatim>\<open>msstore_winrt_get_last_error\<close> leaves every slot as it is, whatever it returns.
\<close>

theorem error_slot_after_call:
  "(msstore_winrt_get_license_json w t s = (Inr r, s1) \<longrightarrow>
     (r \<noteq> None \<longrightarrow> g_lastError s1 t = []) \<and>
     (r = None \<longrightarrow>
        (\<exists>e s'. get_license_json_try w t s = (Inl e, s') \<and> g_lastError s1 t = exn_message e) \<or>
        (init_apartment_outcome w = None \<and> GetDefault_outcome w = None \<and>
         GetAppLicenseAsync_get w = Inr None \<and> g_lastError s1 t = ''StoreAppLicense is null.'') \<or>
        (init_apartment_outcome w = None \<and> GetDefault_outcome w = None \<and>
         (\<exists>license. GetAppLicenseAsync_get w = Inr (Some license) \<and>
            avail s \<le> length (ExtendedJsonData license))))) \<and>
   (msstore_winrt_request_purchase w t storeId s = (Inr c, s2) \<longrightarrow>
     (c \<noteq> - 1 \<longrightarrow> 0 \<le> c \<and> g_lastError s2 t = []) \<and>
     (c = - 1 \<longrightarrow>
        (\<exists>e s'. request_purchase_try w t storeId s = (Inl e, s') \<and>
           g_lastError s2 t = exn_message e) \<or>
        ((storeId = None \<or> (\<exists>bytes. storeId = Some bytes \<and> c_str bytes = [])) \<and>
         g_lastError s2 t = ''Store ID is null or empty.'') \<or>
        (init_apartment_outcome w = None \<and> GetDefault_outcome w = None \<and>
         GetForegroundWindow_result w = None \<and>
         g_lastError s2 t = ''No foreground window handle available for Store UI.'') \<or>
        (init_apartment_outcome w = None \<and> GetDefault_outcome w = None \<and>
         as_IInitializeWithWindow_outcome w = None \<and>
         (\<exists>bytes. storeId = Some bytes \<and> RequestPurchaseAsync_get w (c_str bytes) = Inr None) \<and>
         g_lastError s2 t = ''StorePurchaseResult is null.''))) \<and>
   (msstore_winrt_request_rate_and_review w t s = Some (Inr d, s3) \<longrightarrow>
     (d \<noteq> - 1 \<longrightarrow> 0 \<le> d \<and> g_lastError s3 t = []) \<and>
     (d = - 1 \<longrightarrow>
        (\<exists>e s'. request_rate_and_review_try w t s = Some (Inl e, s') \<and>
           g_lastError s3 t = exn_message e) \<or>
        (init_apartment_outcome w = None \<and> GetDefault_outcome w = None \<and>
         GetForegroundWindow_result w = None \<and>
         g_lastError s3 t = ''No foreground window handle available for Store UI.'') \<or>
        (init_apartment_outcome w = None \<and> GetDefault_outcome w = None \<and>
         as_IInitializeWithWindow_outcome w = None \<and>
         RequestRateAndReviewAppAsync_outcome w = None \<and>
         operation_GetResults w = Inr None \<and>
         g_lastError s3 t = ''StoreRateAndReviewResult is null.''))) \<and>
   g_lastError (snd (msstore_winrt_get_last_error t s)) = g_lastError s"
  using license_slot [of w t s r s1] purchase_slot [of w t storeId s c s2]
    rate_slot [of w t s d s3] get_last_error_slot [of t s]
  by blast

text \<open>
  The amended statement at concrete inputs: the three operations succeeding on
  \<open>platform_ok\<close>, and failing on \<open>platform_failing\<close> and \<open>platform_headless\<close>.
\<close>

theorem error_slot_after_call_witness:
  "fst (msstore_winrt_get_license_json platform_ok 0 state0) = Inr (Some 1) \<and>
   g_lastError (snd (msstore_winrt_get_license_json platform_ok 0 state0)) 0 = [] \<and>
   fst (msstore_winrt_request_purchase platform_ok 0 (Some ''9NBLGGH4R315'') state0) = Inr 1 \<and>
   g_lastError (snd (msstore_winrt_request_purchase platform_ok 0 (Some ''9NBLGGH4R315'') state0)) 0 = [] \<and>
   map_option (\<lambda>(r, s'). (r, g_lastError s' 0))
     (msstore_winrt_request_rate_and_review platform_ok 0 state0) = Some (Inr 1, []) \<and>
   fst (msstore_winrt_get_license_json platform_failing 0 state0) = Inr None \<and>
   g_lastError (snd (msstore_winrt_get_license_json platform_failing 0 state0)) 0 =
     ''The server is unavailable.'' \<and>
   fst (msstore_winrt_request_purchase platform_headless 0 (Some ''9NBLGGH4R315'') state0) = Inr (- 1) \<and>
   g_lastError (snd (msstore_winrt_request_purchase platform_headless 0 (Some ''9NBLGGH4R315'') state0)) 0 =
     ''No foreground window handle available for Store UI.'' \<and>
   map_option (\<lambda>(r, s'). (r, g_lastError s' 0))
     (msstore_winrt_request_rate_and_review platform_headless 0 state0) =
     Some (Inr (- 1), ''No foreground window handle available for Store UI.'')"
proof -
  let ?id = "Some ''9NBLGGH4R315''"
  obtain s1 where l: "msstore_winrt_get_license_json platform_ok 0 state0 = (Inr (Some 1), s1)"
    by (simp add: msstore_winrt_get_license_json_def get_license_json_try_def platform_call_defs
        catch_clauses_Inr dup_string_def CoTaskMemAlloc_def memcpy_def set_g_lastError_def
        log_call_def fresh_addr_def platform_ok_def state0_def)
  obtain s2 where p: "msstore_winrt_request_purchase platform_ok 0 ?id state0 = (Inr 1, s2)"
    by (simp add: msstore_winrt_request_purchase_def request_purchase_try_def c_str_store_id platform_call_defs
        catch_clauses_Inr map_purchase_status_def StorePurchaseStatus_defs platform_ok_def)
  have "rate_flow_completes platform_ok 2 \<lparr>rate_Status = StoreRateAndReviewStatus_CanceledByUser\<rparr>"
    by (simp add: rate_flow_completes_def platform_ok_def list_all_upt)
  from rate_completed [OF this, of 0 state0]
  obtain s3 where r: "msstore_winrt_request_rate_and_review platform_ok 0 state0 = Some (Inr 1, s3)"
    by (auto simp: map_rate_and_review_status_def StoreRateAndReviewStatus_defs)
  obtain s4 where lf: "msstore_winrt_get_license_json platform_failing 0 state0 = (Inr None, s4)"
    and s4: "g_lastError s4 0 = ''The server is unavailable.''"
    by (simp add: msstore_winrt_get_license_json_def get_license_json_try_def platform_call_defs
        catch_clauses_Inl store_in_handler_def set_g_lastError_def platform_failing_def platform_ok_def)
  obtain s5 where pf: "msstore_winrt_request_purchase platform_headless 0 ?id state0 = (Inr (- 1), s5)"
    and s5: "g_lastError s5 0 = ''No foreground window handle available for Store UI.''"
    by (simp add: msstore_winrt_request_purchase_def request_purchase_try_def c_str_store_id platform_call_defs
        catch_clauses_Inr set_g_lastError_def log_call_def platform_headless_def platform_ok_def)
  obtain s6 where rf: "msstore_winrt_request_rate_and_review platform_headless 0 state0 = Some (Inr (- 1), s6)"
    and s6: "g_lastError s6 0 = ''No foreground window handle available for Store UI.''"
    by (simp add: msstore_winrt_request_rate_and_review_def request_rate_and_review_try_def
        platform_call_defs catch_clauses_Inr set_g_lastError_def log_call_def
        platform_headless_def platform_ok_def)
  note ok = error_slot_after_call [of platform_ok 0 state0 "Some 1" s1 ?id 1 s2 1 s3]
  note failing = error_slot_after_call [of platform_failing 0 state0 None s4 None "- 1" s5 "- 1" s6]
  note headless = error_slot_after_call [of platform_headless 0 state0 None s4 ?id "- 1" s5 "- 1" s6]
  show ?thesis
    using ok failing headless l p r lf s4 pf s5 rf s6 by simp
qed

text \<open>
  C1 as stated fails, in three ways. After a purchase request with a null store ID has
  failed, \<^verbatim>\<open>msstore_winrt_get_last_error\<close> succeeds (it returns the buffer at address 1)
  and the slot still holds the message, so a successful call does not leave the slot
  empty. A license fetch with nothing left to allocate returns null with the slot empty.
  And a purchase request whose \<^verbatim>\<open>StoreContext::GetDefault\<close> throws a \<^verbatim>\<open>std::exception\<close> with
  an empty \<^verbatim>\<open>what()\<close> returns \<open>-1\<close> with the slot empty: the handler stores the
  exception's own message.
\<close>

theorem error_slot_after_call_counterexample:
  "fst (msstore_winrt_request_purchase platform_ok 0 None state0) = Inr (- 1) \<and>
   fst (msstore_winrt_get_last_error 0 (snd (msstore_winrt_request_purchase platform_ok 0 None state0))) =
     Inr (Some 1) \<and>
   g_lastError
     (snd (msstore_winrt_get_last_error 0 (snd (msstore_winrt_request_purchase platform_ok 0 None state0))))
     0 = ''Store ID is null or empty.'' \<and>
   fst (msstore_winrt_get_license_json platform_ok 0 state_exhausted) = Inr None \<and>
   g_lastError (snd (msstore_winrt_get_license_json platform_ok 0 state_exhausted)) 0 = [] \<and>
   fst (msstore_winrt_request_purchase (platform_ok\<lparr>GetDefault_outcome := Some (std_exception [])\<rparr>)
          0 (Some ''9NBLGGH4R315'') state0) = Inr (- 1) \<and>
   g_lastError
     (snd (msstore_winrt_request_purchase (platform_ok\<lparr>GetDefault_outcome := Some (std_exception [])\<rparr>)
            0 (Some ''9NBLGGH4R315'') state0))
     0 = []"
  by (simp add: msstore_winrt_request_purchase_def request_purchase_try_def c_str_store_id
      msstore_winrt_get_last_error_def msstore_winrt_get_license_json_def get_license_json_try_def
      platform_call_defs catch_clauses_Inr catch_clauses_Inl store_in_handler_def dup_string_def
      CoTaskMemAlloc_def memcpy_def fresh_addr_def set_g_lastError_def log_call_def
      platform_ok_def state_exhausted_def state0_def)

subsection \<open>C2: reading the last error\<close>

text \<open>
  C2, as amended. \<^verbatim>\<open>msstore_winrt_get_last_error\<close> never throws and never changes a slot.
  When the allocator can serve the message and its terminating NUL, the call returns a
  buffer at an address that was not in use, holding the calling thread's last error
  message (possibly empty) and the NUL; when the allocator cannot, the call returns
  null and changes nothing.
\<close>

theorem get_last_error_buffer:
  "(length (g_lastError s t) < avail s \<longrightarrow>
      (\<exists>p s'. msstore_winrt_get_last_error t s = (Inr (Some p), s') \<and>
               map_of (blocks s) p = None \<and>
               map_of (blocks s') p = Some (g_lastError s t @ [CHR 0x00]) \<and>
               g_lastError s' = g_lastError s)) \<and>
   (avail s \<le> length (g_lastError s t) \<longrightarrow>
      msstore_winrt_get_last_error t s = (Inr None, s))"
  by (simp add: msstore_winrt_get_last_error_def dup_string_allocates dup_string_exhausted
      fresh_addr_unused)

text \<open>The amended statement at \<open>state0\<close> (a buffer) and at \<open>state_exhausted\<close> (null).\<close>

theorem get_last_error_buffer_witness:
  "fst (msstore_winrt_get_last_error 0 state0) = Inr (Some 1) \<and>
   map_of (blocks (snd (msstore_winrt_get_last_error 0 state0))) 1 = Some [CHR 0x00] \<and>
   msstore_winrt_get_last_error 0 state_exhausted = (Inr None, state_exhausted)"
proof -
  have room: "length (g_lastError state0 0) < avail state0"
    by (simp add: state0_def)
  have none: "avail state_exhausted \<le> length (g_lastError state_exhausted 0)"
    by (simp add: state_exhausted_def state0_def)
  have fresh: "fresh_addr (blocks state0) = 1"
    by (simp add: fresh_addr_def state0_def)
  from get_last_error_buffer [of state0 0] room
  obtain p s' where r: "msstore_winrt_get_last_error 0 state0 = (Inr (Some p), s')"
    "map_of (blocks s') p = Some (g_lastError state0 0 @ [CHR 0x00])"
    by blast
  have "p = 1"
    using r(1) fresh room
    by (simp add: msstore_winrt_get_last_error_def dup_string_allocates)
  with r get_last_error_buffer [of state_exhausted 0] none show ?thesis
    by (simp add: state0_def)
qed

text \<open>
  C2 as stated fails: with nothing left to allocate, \<^verbatim>\<open>CoTaskMemAlloc\<close> answers null,
  \<^verbatim>\<open>dup_string\<close> passes it on, and \<^verbatim>\<open>msstore_winrt_get_last_error\<close> returns a null buffer.
\<close>

theorem get_last_error_null_counterexample:
  "msstore_winrt_get_last_error 0 state_exhausted = (Inr None, state_exhausted)"
  by (simp add: msstore_winrt_get_last_error_def dup_string_def CoTaskMemAlloc_def
      state_exhausted_def state0_def)

subsection \<open>C3: no foreground window\<close>




subsection \<open>C4: the status code tables\<close>

text \<open>
  C4. The status codes are the fixed tables: a purchase status Succeeded gives 0,
  AlreadyPurchased 1, NotPurchased 2, NetworkError 3, ServerError 4 and any other value
  5 (Unknown); a rating status Succeeded gives 0, CanceledByUser 1, NetworkError 2,
  Error 3 and any other value 4 (Unknown). A purchase or rating flow that completes with
  a result object returns the table's code for the result's status, and a call that
  returns \<open>-1\<close> is never one whose flow completed.
\<close>

theorem status_code_tables:
  "map_purchase_status StorePurchaseStatus_Succeeded = 0 \<and>
   map_purchase_status StorePurchaseStatus_AlreadyPurchased = 1 \<and>
   map_purchase_status StorePurchaseStatus_NotPurchased = 2 \<and>
   map_purchase_status StorePurchaseStatus_NetworkError = 3 \<and>
   map_purchase_status StorePurchaseStatus_ServerError = 4 \<and>
   (st \<notin> {StorePurchaseStatus_Succeeded, StorePurchaseStatus_AlreadyPurchased,
            StorePurchaseStatus_NotPurchased, StorePurchaseStatus_NetworkError,
            StorePurchaseStatus_ServerError} \<longrightarrow> map_purchase_status st = 5) \<and>
   map_rate_and_review_status StoreRateAndReviewStatus_Succeeded = 0 \<and>
   map_rate_and_review_status StoreRateAndReviewStatus_CanceledByUser = 1 \<and>
   map_rate_and_review_status StoreRateAndReviewStatus_NetworkError = 2 \<and>
   map_rate_and_review_status StoreRateAndReviewStatus_Error = 3 \<and>
   (st' \<notin> {StoreRateAndReviewStatus_Succeeded, StoreRateAndReviewStatus_CanceledByUser,
             StoreRateAndReviewStatus_NetworkError, StoreRateAndReviewStatus_Error}
      \<longrightarrow> map_rate_and_review_status st' = 4) \<and>
   (purchase_flow_completes w storeId result \<longrightarrow>
      fst (msstore_winrt_request_purchase w t storeId s) =
      Inr (map_purchase_status (purchase_Status result))) \<and>
   (fst (msstore_winrt_request_purchase w t storeId s) = Inr (- 1) \<longrightarrow>
      \<not> purchase_flow_completes w storeId result) \<and>
   (rate_flow_completes w n result' \<longrightarrow>
      map_option fst (msstore_winrt_request_rate_and_review w t s) =
      Some (Inr (map_rate_and_review_status (rate_Status result')))) \<and>
   (map_option fst (msstore_winrt_request_rate_and_review w t s) = Some (Inr (- 1)) \<longrightarrow>
      \<not> rate_flow_completes w n result')"
proof -
  have tables_p: "map_purchase_status StorePurchaseStatus_Succeeded = 0"
    "map_purchase_status StorePurchaseStatus_AlreadyPurchased = 1"
    "map_purchase_status StorePurchaseStatus_NotPurchased = 2"
    "map_purchase_status StorePurchaseStatus_NetworkError = 3"
    "map_purchase_status StorePurchaseStatus_ServerError = 4"
    by (simp_all add: map_purchase_status_def StorePurchaseStatus_defs)
  have tables_r: "map_rate_and_review_status StoreRateAndReviewStatus_Succeeded = 0"
    "map_rate_and_review_status StoreRateAndReviewStatus_CanceledByUser = 1"
    "map_rate_and_review_status StoreRateAndReviewStatus_NetworkError = 2"
    "map_rate_and_review_status StoreRateAndReviewStatus_Error = 3"
    by (simp_all add: map_rate_and_review_status_def StoreRateAndReviewStatus_defs)
  have other_p: "st \<notin> {StorePurchaseStatus_Succeeded, StorePurchaseStatus_AlreadyPurchased,
            StorePurchaseStatus_NotPurchased, StorePurchaseStatus_NetworkError,
            StorePurchaseStatus_ServerError} \<longrightarrow> map_purchase_status st = 5"
    by (simp add: map_purchase_status_def)
  have other_r: "st' \<notin> {StoreRateAndReviewStatus_Succeeded,
             StoreRateAndReviewStatus_CanceledByUser,
             StoreRateAndReviewStatus_NetworkError, StoreRateAndReviewStatus_Error}
      \<longrightarrow> map_rate_and_review_status st' = 4"
    by (simp add: map_rate_and_review_status_def)
  have p1: "purchase_flow_completes w storeId result \<longrightarrow>
      fst (msstore_winrt_request_purchase w t storeId s) =
      Inr (map_purchase_status (purchase_Status result))"
    by (simp add: purchase_completed)
  have p2: "fst (msstore_winrt_request_purchase w t storeId s) = Inr (- 1) \<longrightarrow>
      \<not> purchase_flow_completes w storeId result"
    using purchase_completed [of w storeId result t s]
      map_purchase_status_nonneg [of "purchase_Status result"] by auto
  have r1: "rate_flow_completes w n result' \<longrightarrow>
      map_option fst (msstore_winrt_request_rate_and_review w t s) =
      Some (Inr (map_rate_and_review_status (rate_Status result')))"
    using rate_completed [of w n result' t s] by auto
  have r2: "map_option fst (msstore_winrt_request_rate_and_review w t s) = Some (Inr (- 1)) \<longrightarrow>
      \<not> rate_flow_completes w n result'"
    using r1 map_rate_and_review_status_nonneg [of "rate_Status result'"] by auto
  show ?thesis
    using tables_p tables_r other_p other_r p1 p2 r1 r2 by blast
qed

text \<open>
  The statement at \<open>platform_ok\<close> (both flows complete) and at \<open>platform_headless\<close> (both
  calls return \<open>-1\<close>), with the status values 17 and 9 outside the enumerations.
\<close>

theorem status_code_tables_witness:
  "purchase_flow_completes platform_ok (Some ''9NBLGGH4R315'')
     \<lparr>purchase_Status = StorePurchaseStatus_AlreadyPurchased\<rparr> \<and>
   fst (msstore_winrt_request_purchase platform_ok 0 (Some ''9NBLGGH4R315'') state0) = Inr 1 \<and>
   rate_flow_completes platform_ok 2 \<lparr>rate_Status = StoreRateAndReviewStatus_CanceledByUser\<rparr> \<and>
   map_option fst (msstore_winrt_request_rate_and_review platform_ok 0 state0) = Some (Inr 1) \<and>
   (17 :: 32 word) \<notin> {StorePurchaseStatus_Succeeded, StorePurchaseStatus_AlreadyPurchased,
            StorePurchaseStatus_NotPurchased, StorePurchaseStatus_NetworkError,
            StorePurchaseStatus_ServerError} \<and>
   map_purchase_status 17 = 5 \<and>
   (9 :: 32 word) \<notin> {StoreRateAndReviewStatus_Succeeded, StoreRateAndReviewStatus_CanceledByUser,
             StoreRateAndReviewStatus_NetworkError, StoreRateAndReviewStatus_Error} \<and>
   map_rate_and_review_status 9 = 4 \<and>
   fst (msstore_winrt_request_purchase platform_headless 0 (Some ''9NBLGGH4R315'') state0) = Inr (- 1) \<and>
   \<not> purchase_flow_completes platform_headless (Some ''9NBLGGH4R315'')
       \<lparr>purchase_Status = StorePurchaseStatus_AlreadyPurchased\<rparr> \<and>
   map_option fst (msstore_winrt_request_rate_and_review platform_headless 0 state0) = Some (Inr (- 1)) \<and>
   \<not> rate_flow_completes platform_headless 2 \<lparr>rate_Status = StoreRateAndReviewStatus_CanceledByUser\<rparr>"
proof -
  have p: "purchase_flow_completes platform_ok (Some ''9NBLGGH4R315'')
     \<lparr>purchase_Status = StorePurchaseStatus_AlreadyPurchased\<rparr>"
    by (simp add: purchase_flow_completes_def platform_ok_def c_str_store_id)
  have r: "rate_flow_completes platform_ok 2 \<lparr>rate_Status = StoreRateAndReviewStatus_CanceledByUser\<rparr>"
    by (simp add: rate_flow_completes_def platform_ok_def list_all_upt)
  have o1: "(17 :: 32 word) \<notin> {StorePurchaseStatus_Succeeded, StorePurchaseStatus_AlreadyPurchased,
            StorePurchaseStatus_NotPurchased, StorePurchaseStatus_NetworkError,
            StorePurchaseStatus_ServerError}"
    by (simp add: StorePurchaseStatus_defs)
  have o2: "(9 :: 32 word) \<notin> {StoreRateAndReviewStatus_Succeeded, StoreRateAndReviewStatus_CanceledByUser,
             StoreRateAndReviewStatus_NetworkError, StoreRateAndReviewStatus_Error}"
    by (simp add: StoreRateAndReviewStatus_defs)
  have h1: "fst (msstore_winrt_request_purchase platform_headless 0 (Some ''9NBLGGH4R315'') state0) = Inr (- 1)"
    by (simp add: msstore_winrt_request_purchase_def request_purchase_try_def c_str_store_id catch_clauses_def
        init_apartment_def StoreContext_GetDefault_def initialize_store_ui_owner_def
        platform_headless_def platform_ok_def)
  have h2: "map_option fst (msstore_winrt_request_rate_and_review platform_headless 0 state0) = Some (Inr (- 1))"
    by (simp add: msstore_winrt_request_rate_and_review_def request_rate_and_review_try_def
        catch_clauses_def init_apartment_def StoreContext_GetDefault_def
        initialize_store_ui_owner_def platform_headless_def platform_ok_def)
  note ok = status_code_tables [of 17 9 platform_ok "Some ''9NBLGGH4R315''"
      "\<lparr>purchase_Status = StorePurchaseStatus_AlreadyPurchased\<rparr>" 0 state0 2
      "\<lparr>rate_Status = StoreRateAndReviewStatus_CanceledByUser\<rparr>"]
  note headless = status_code_tables [of 17 9 platform_headless "Some ''9NBLGGH4R315''"
      "\<lparr>purchase_Status = StorePurchaseStatus_AlreadyPurchased\<rparr>" 0 state0 2
      "\<lparr>rate_Status = StoreRateAndReviewStatus_CanceledByUser\<rparr>"]
  show ?thesis
    using ok headless p r o1 o2 h1 h2 by simp
qed

subsection \<open>C5: a null or empty store ID\<close>



subsection \<open>C6: the pumping wait\<close>

text \<open>
  C6. Given an operation that is \<^verbatim>\<open>Started\<close> at the first \<open>n\<close> polls and \<^verbatim>\<open>Completed\<close>
  at the next, with a result object, \<^verbatim>\<open>wait_for_rate_and_review_result\<close> returns, and it
  returns that object. The platform calls it makes are, for each of the \<open>n\<close> passes in
  turn, the poll that found the operation \<^verbatim>\<open>Started\<close>, the translation and dispatch of
  every message queued in that pass, in queue order, and the bounded wait; then the poll
  that finds the operation \<^verbatim>\<open>Completed\<close> and one \<^verbatim>\<open>GetResults\<close>. So each pass dispatches
  all queued messages before completion is checked again, the loop runs until the
  operation has left \<^verbatim>\<open>Started\<close>, and the result is retrieved exactly once.
\<close>

theorem pumping_wait:
  assumes "\<forall>j<n. operation_Status w j = Started"
    and "operation_Status w n = Completed"
    and "operation_GetResults w = Inr (Some result)"
  shows "\<exists>new. wait_for_rate_and_review_result w 0 s = Some (Inr (Some result), s\<lparr>trace := trace s @ new\<rparr>) \<and>
           new = concat (map (\<lambda>k. Call_Status Started #
                                   concat (map (\<lambda>m. [Call_TranslateMessage m, Call_DispatchMessageW m])
                                             (queued_messages w k)) @
                                   [Call_MsgWaitForMultipleObjectsEx]) [0..<n]) @
                 [Call_Status Completed, Call_GetResults] \<and>
           length (filter (\<lambda>e. e = Call_GetResults) new) = 1"
proof -
  have left: "operation_Status w n \<noteq> Started"
    using assms(2) by simp
  have cyc: "cycle_trace w = (\<lambda>k. Call_Status Started #
                                   concat (map (\<lambda>m. [Call_TranslateMessage m, Call_DispatchMessageW m])
                                             (queued_messages w k)) @
                                   [Call_MsgWaitForMultipleObjectsEx])"
    by (rule ext) (simp add: cycle_trace_def pump_trace_def)
  have once: "length (filter (\<lambda>e. e = Call_GetResults)
     (concat (map (cycle_trace w) [0..<n]) @ [Call_Status Completed, Call_GetResults])) = 1"
    by (simp add: no_GetResults_in_cycles)
  show ?thesis
    using wait_completes [OF assms(1) left, of s] once
    by (simp add: assms(2,3) cyc)
qed

text \<open>The statement at \<open>platform_ok\<close>: two passes, two messages in the first.\<close>

theorem pumping_wait_witness:
  "wait_for_rate_and_review_result platform_ok 0 state0 =
     Some (Inr (Some \<lparr>rate_Status = StoreRateAndReviewStatus_CanceledByUser\<rparr>),
           state0\<lparr>trace :=
             [Call_Status Started, Call_TranslateMessage 7, Call_DispatchMessageW 7,
              Call_TranslateMessage 8, Call_DispatchMessageW 8, Call_MsgWaitForMultipleObjectsEx,
              Call_Status Started, Call_MsgWaitForMultipleObjectsEx,
              Call_Status Completed, Call_GetResults]\<rparr>)"
proof -
  have running: "\<forall>j<2. operation_Status platform_ok j = Started"
    by (simp add: platform_ok_def)
  have completed: "operation_Status platform_ok 2 = Completed"
    by (simp add: platform_ok_def)
  have results: "operation_GetResults platform_ok =
      Inr (Some \<lparr>rate_Status = StoreRateAndReviewStatus_CanceledByUser\<rparr>)"
    by (simp add: platform_ok_def)
  have two: "[0..<2] = [0, 1]"
    by (simp add: upt_conv_Cons)
  from pumping_wait [OF running completed results, of state0]
  show ?thesis
    by (auto simp: two platform_ok_def state0_def)
qed

subsection \<open>C7: failures are absorbed at the boundary\<close>

text \<open>
  C7. The claim is that every failure is caught inside the entry point, recorded in the
  calling thread's slot and surfaced only as the sentinel, so that no exception crosses
  the call boundary. The code does not keep this where the handler's own assignment to
  \<^verbatim>\<open>g_lastError\<close> throws: on \<open>platform_handler_throws\<close> each asynchronous request ends in an
  exception, the matching \<^verbatim>\<open>catch\<close> clause is entered, its assignment throws
  \<^verbatim>\<open>std::bad_alloc\<close>, and that exception leaves each of the three entry points: no
  sentinel is returned and the slot stays empty.
\<close>

theorem handler_exception_leaves_entry_point:
  "msstore_winrt_get_license_json platform_handler_throws 0 state0 =
     (Inl (std_exception ''bad allocation''),
      state0\<lparr>trace := [Call_init_apartment, Call_GetDefault, Call_GetAppLicenseAsync]\<rparr>) \<and>
   msstore_winrt_request_purchase platform_handler_throws 0 (Some ''9NBLGGH4R315'') state0 =
     (Inl (std_exception ''bad allocation''),
      state0\<lparr>trace := [Call_init_apartment, Call_GetDefault, Call_GetForegroundWindow,
                       Call_as_IInitializeWithWindow, Call_Initialize 1,
                       Call_RequestPurchaseAsync ''9NBLGGH4R315'']\<rparr>) \<and>
   map_option (\<lambda>(r, s'). (r, g_lastError s' 0))
     (msstore_winrt_request_rate_and_review platform_handler_throws 0 state0) =
     Some (Inl (std_exception ''bad allocation''), [])"
proof -
  have fields: "init_apartment_outcome platform_handler_throws = None"
    "GetDefault_outcome platform_handler_throws = None"
    "GetForegroundWindow_result platform_handler_throws = Some 1"
    "as_IInitializeWithWindow_outcome platform_handler_throws = None"
    "GetAppLicenseAsync_get platform_handler_throws =
       Inl (hresult_error ''The server is unavailable.'')"
    "RequestPurchaseAsync_get platform_handler_throws ''9NBLGGH4R315'' =
       Inl (std_exception ''bad allocation'')"
    "RequestRateAndReviewAppAsync_outcome platform_handler_throws = None"
    "operation_GetResults platform_handler_throws = Inl other_exception"
    "handler_assignment_outcome platform_handler_throws = Some (std_exception ''bad allocation'')"
    by (simp_all add: platform_handler_throws_def platform_failing_def platform_ok_def)
  have running: "\<forall>j<2. operation_Status platform_handler_throws j = Started"
    and left: "operation_Status platform_handler_throws 2 \<noteq> Started"
    by (simp_all add: platform_handler_throws_def platform_failing_def platform_ok_def)
  have l: "msstore_winrt_get_license_json platform_handler_throws 0 state0 =
     (Inl (std_exception ''bad allocation''),
      state0\<lparr>trace := [Call_init_apartment, Call_GetDefault, Call_GetAppLicenseAsync]\<rparr>)"
    by (simp add: msstore_winrt_get_license_json_def get_license_json_try_def platform_call_defs
        catch_clauses_Inl store_in_handler_def log_call_def fields)
       (simp add: state0_def)
  have p: "msstore_winrt_request_purchase platform_handler_throws 0 (Some ''9NBLGGH4R315'') state0 =
     (Inl (std_exception ''bad allocation''),
      state0\<lparr>trace := [Call_init_apartment, Call_GetDefault, Call_GetForegroundWindow,
                       Call_as_IInitializeWithWindow, Call_Initialize 1,
                       Call_RequestPurchaseAsync ''9NBLGGH4R315'']\<rparr>)"
    by (simp add: msstore_winrt_request_purchase_def request_purchase_try_def c_str_store_id
        platform_call_defs catch_clauses_Inl store_in_handler_def log_call_def fields)
       (simp add: state0_def)
  have r: "map_option (\<lambda>(r, s'). (r, g_lastError s' 0))
     (msstore_winrt_request_rate_and_review platform_handler_throws 0 state0) =
     Some (Inl (std_exception ''bad allocation''), [])"
    by (simp add: msstore_winrt_request_rate_and_review_def request_rate_and_review_try_def
        platform_call_defs catch_clauses_Inl store_in_handler_def log_call_def fields
        wait_completes [OF running left])
       (simp add: state0_def)
  show ?thesis
    using l p r by simp
qed

subsection \<open>C8: a slot belongs to its thread\<close>

text \<open>
  C8. Calls made by threads other than \<open>t'\<close> do not read the slot of \<open>t'\<close>: whatever it
  holds, they return the same values and leave the same state, but for that slot. They
  do not write it: it holds afterwards what it held before. And in any interleaving of
  calls that returns, the slot of a thread \<open>t\<close> ends as it does when only the calls of
  \<open>t\<close> are run.
\<close>

theorem error_slot_thread_local:
  "((\<forall>(u, c) \<in> set cs. u \<noteq> t') \<longrightarrow>
      run_calls cs (s\<lparr>g_lastError := (g_lastError s)(t' := x)\<rparr>) =
        map_option (\<lambda>(rs, s'). (rs, s'\<lparr>g_lastError := (g_lastError s')(t' := x)\<rparr>))
          (run_calls cs s)) \<and>
   ((\<forall>(u, c) \<in> set cs. u \<noteq> t') \<longrightarrow> run_calls cs s = Some (rs, s') \<longrightarrow>
      g_lastError s' t' = g_lastError s t') \<and>
   (run_calls cs s = Some (rs, s') \<longrightarrow>
      (\<exists>rs1 s1. run_calls (filter (\<lambda>(u, c). u = t) cs) s = Some (rs1, s1) \<and>
                 g_lastError s1 t = g_lastError s' t))"
proof -
  have reads: "run_calls cs (s\<lparr>g_lastError := (g_lastError s)(t' := x)\<rparr>) =
        map_option (\<lambda>(rs, s'). (rs, s'\<lparr>g_lastError := (g_lastError s')(t' := x)\<rparr>))
          (run_calls cs s)"
    if "\<forall>(u, c) \<in> set cs. u \<noteq> t'"
  proof -
    have eq: "apsnd (with_slot t' x) = (\<lambda>(rs, s'). (rs, s'\<lparr>g_lastError := (g_lastError s')(t' := x)\<rparr>))"
      by (auto simp: with_slot_def)
    have "run_calls cs (with_slot t' x s) = map_option (apsnd (with_slot t' x)) (run_calls cs s)"
      by (rule with_slot_run_calls [OF that])
    then show ?thesis
      unfolding eq by (simp only: with_slot_def)
  qed
  have writes: "g_lastError s' t' = g_lastError s t'"
    if others: "\<forall>(u, c) \<in> set cs. u \<noteq> t'" and run: "run_calls cs s = Some (rs, s')"
  proof -
    have "with_slot t' (g_lastError s t') s = s"
      by (simp add: with_slot_def)
    with with_slot_run_calls [OF others, of "g_lastError s t'" s] run
    have "s' = with_slot t' (g_lastError s t') s'"
      by auto
    then have "g_lastError s' t' = g_lastError (with_slot t' (g_lastError s t') s') t'"
      by simp
    then show ?thesis
      by (simp add: with_slot_def)
  qed
  have own: "\<exists>rs1 s1. run_calls (filter (\<lambda>(u, c). u = t) cs) s = Some (rs1, s1) \<and>
                 g_lastError s1 t = g_lastError s' t"
    if "run_calls cs s = Some (rs, s')"
    using run_calls_own_slot [OF refl that] .
  show ?thesis
    using reads writes own by blast
qed

text \<open>
  The statement at two threads: thread 1 fails a purchase request, thread 2 completes
  one, and each reads its own last error.
\<close>

theorem error_slot_thread_local_witness:
  "map_option (\<lambda>(rs, s'). (rs, g_lastError s' 1, g_lastError s' 2))
     (run_calls [(1, Request_purchase platform_ok None),
                 (2, Request_purchase platform_ok (Some ''9NBLGGH4R315'')),
                 (1, Get_last_error), (2, Get_last_error)] state0) =
     Some ([Status (Inr (- 1)), Status (Inr 1), Buffer (Inr (Some 1)), Buffer (Inr (Some 2))],
           ''Store ID is null or empty.'', []) \<and>
   map_option (\<lambda>(rs, s'). (rs, g_lastError s' 1, g_lastError s' 2))
     (run_calls [(1, Request_purchase platform_ok None), (1, Get_last_error)]
        (state0\<lparr>g_lastError := (g_lastError state0)(2 := ''stale'')\<rparr>)) =
     Some ([Status (Inr (- 1)), Buffer (Inr (Some 1))], ''Store ID is null or empty.'', ''stale'') \<and>
   map_option (\<lambda>(rs, s'). g_lastError s' 2)
     (run_calls [(2, Request_purchase platform_ok (Some ''9NBLGGH4R315'')), (2, Get_last_error)]
        state0) = Some []"
proof -
  let ?both = "[(1, Request_purchase platform_ok None),
                 (2, Request_purchase platform_ok (Some ''9NBLGGH4R315'')),
                 (1, Get_last_error), (2, Get_last_error)]"
  let ?one = "[(1 :: tid, Request_purchase platform_ok None), (1, Get_last_error)]"
  let ?two = "[(2 :: tid, Request_purchase platform_ok (Some ''9NBLGGH4R315'')), (2, Get_last_error)]"
  let ?rs = "[Status (Inr (- 1)), Status (Inr 1), Buffer (Inr (Some 1)), Buffer (Inr (Some 2))]"
  let ?rs1 = "[Status (Inr (- 1)), Buffer (Inr (Some 1))]"
  have fields: "init_apartment_outcome platform_ok = None"
    "GetDefault_outcome platform_ok = None"
    "GetForegroundWindow_result platform_ok = Some 1"
    "as_IInitializeWithWindow_outcome platform_ok = None"
    "RequestPurchaseAsync_get platform_ok ''9NBLGGH4R315'' =
       Inr (Some \<lparr>purchase_Status = StorePurchaseStatus_AlreadyPurchased\<rparr>)"
    by (simp_all add: platform_ok_def)
  note eval = msstore_winrt_request_purchase_def request_purchase_try_def c_str_store_id
    msstore_winrt_get_last_error_def platform_call_defs catch_clauses_Inr dup_string_def
    CoTaskMemAlloc_def memcpy_def fresh_addr_def set_g_lastError_def log_call_def
    map_purchase_status_def StorePurchaseStatus_defs fields state0_def
  obtain s' where both: "run_calls ?both state0 = Some (?rs, s')"
    and slots: "g_lastError s' 1 = ''Store ID is null or empty.''" "g_lastError s' 2 = []"
    by (simp add: eval)
  obtain s1 where one: "run_calls ?one state0 = Some (?rs1, s1)"
    and slot1: "g_lastError s1 1 = ''Store ID is null or empty.''"
    by (simp add: eval)
  have others: "\<forall>(u, c) \<in> set ?one. u \<noteq> 2"
    by simp
  have filtered: "filter (\<lambda>(u, c). u = 2) ?both = ?two"
    by simp
  note frame = error_slot_thread_local [where cs = ?one and t' = 2 and s = state0
      and x = "''stale''" and rs = ?rs1 and s' = s1 and t = 1]
  note own = error_slot_thread_local [where cs = ?both and t' = 2 and s = state0
      and x = "''stale''" and rs = ?rs and s' = s' and t = 2]
  have a: "run_calls ?one (state0\<lparr>g_lastError := (g_lastError state0)(2 := ''stale'')\<rparr>) =
      Some (?rs1, s1\<lparr>g_lastError := (g_lastError s1)(2 := ''stale'')\<rparr>)"
    using frame others one by simp
  have b: "\<exists>rs2 s2. run_calls ?two state0 = Some (rs2, s2) \<and> g_lastError s2 2 = []"
    using own both slots(2) filtered by simp
  show ?thesis
    using a b both slots slot1 by auto
qed

subsection \<open>C9: releasing a buffer\<close>

text \<open>
  C9. \<^verbatim>\<open>msstore_winrt_free\<close> on a null pointer changes nothing: nothing is deallocated and
  no fault is raised. On a live block it is \<^verbatim>\<open>CoTaskMemFree\<close>: the block leaves the COM
  task allocator and its bytes are available again. Every buffer that
  \<^verbatim>\<open>msstore_winrt_get_last_error\<close> or \<^verbatim>\<open>msstore_winrt_get_license_json\<close> returns is a
  block of that allocator which was not in use before the call, and freeing it puts the
  allocator back as it was before the call.
\<close>

theorem free_contract:
  "msstore_winrt_free None s = s \<and>
   (map_of (blocks s) a = Some bytes \<longrightarrow>
      msstore_winrt_free (Some a) s =
        s\<lparr>blocks := filter (\<lambda>(b, _). b \<noteq> a) (blocks s), avail := avail s + length bytes\<rparr>) \<and>
   (msstore_winrt_get_last_error t s = (Inr (Some p), s1) \<longrightarrow>
      map_of (blocks s) p = None \<and> map_of (blocks s1) p \<noteq> None \<and>
      msstore_winrt_free (Some p) s1 = s) \<and>
   (msstore_winrt_get_license_json w t s = (Inr (Some q), s2) \<longrightarrow>
      map_of (blocks s) q = None \<and> map_of (blocks s2) q \<noteq> None \<and>
      msstore_winrt_free (Some q) s2 = s2\<lparr>blocks := blocks s, avail := avail s\<rparr>)"
proof -
  have null: "msstore_winrt_free None s = s"
    by (simp add: msstore_winrt_free_def)
  have live: "map_of (blocks s) a = Some bytes \<longrightarrow>
      msstore_winrt_free (Some a) s =
        s\<lparr>blocks := filter (\<lambda>(b, _). b \<noteq> a) (blocks s), avail := avail s + length bytes\<rparr>"
    by (simp add: msstore_winrt_free_def CoTaskMemFree_def)
  have dup: "map_of (blocks x) b = None \<and> map_of (blocks x') b \<noteq> None"
    if "dup_string val x = (Some b, x')" for val x b x'
    using that dup_string_cases [of val x] by (auto simp: fresh_addr_unused)
  have err: "msstore_winrt_get_last_error t s = (Inr (Some p), s1) \<longrightarrow>
      map_of (blocks s) p = None \<and> map_of (blocks s1) p \<noteq> None \<and>
      msstore_winrt_free (Some p) s1 = s"
  proof
    assume "msstore_winrt_get_last_error t s = (Inr (Some p), s1)"
    then have d: "dup_string (g_lastError s t) s = (Some p, s1)"
      by (simp add: msstore_winrt_get_last_error_def split: prod.splits)
    have "s1\<lparr>blocks := blocks s, avail := avail s\<rparr> = s"
      using d dup_string_cases [of "g_lastError s t" s] by auto
    with d show "map_of (blocks s) p = None \<and> map_of (blocks s1) p \<noteq> None \<and>
      msstore_winrt_free (Some p) s1 = s"
      using dup [OF d] free_after_dup_string [OF d] by (simp add: msstore_winrt_free_def)
  qed
  have lic: "msstore_winrt_get_license_json w t s = (Inr (Some q), s2) \<longrightarrow>
      map_of (blocks s) q = None \<and> map_of (blocks s2) q \<noteq> None \<and>
      msstore_winrt_free (Some q) s2 = s2\<lparr>blocks := blocks s, avail := avail s\<rparr>"
  proof
    assume "msstore_winrt_get_license_json w t s = (Inr (Some q), s2)"
    from license_buffer [OF this] obtain val s4 where
      d: "dup_string val s4 = (Some q, s2)" and same: "blocks s4 = blocks s" "avail s4 = avail s"
      by blast
    show "map_of (blocks s) q = None \<and> map_of (blocks s2) q \<noteq> None \<and>
      msstore_winrt_free (Some q) s2 = s2\<lparr>blocks := blocks s, avail := avail s\<rparr>"
      using dup [OF d] free_after_dup_string [OF d] same by (simp add: msstore_winrt_free_def)
  qed
  show ?thesis
    using null live err lic by blast
qed

text \<open>The statement at \<open>state0\<close>, for a buffer from each of the two entry points.\<close>

theorem free_contract_witness:
  "msstore_winrt_free None state0 = state0 \<and>
   msstore_winrt_get_last_error 0 state0 =
     (Inr (Some 1), state0\<lparr>blocks := [(1, [CHR 0x00])], avail := 63\<rparr>) \<and>
   msstore_winrt_free (Some 1) (state0\<lparr>blocks := [(1, [CHR 0x00])], avail := 63\<rparr>) = state0 \<and>
   fst (msstore_winrt_get_license_json platform_ok 0 state0) = Inr (Some 1) \<and>
   blocks (msstore_winrt_free (Some 1) (snd (msstore_winrt_get_license_json platform_ok 0 state0))) = [] \<and>
   avail (msstore_winrt_free (Some 1) (snd (msstore_winrt_get_license_json platform_ok 0 state0))) = 64"
proof -
  let ?s1 = "state0\<lparr>blocks := [(1, [CHR 0x00])], avail := 63\<rparr>"
  have fresh: "fresh_addr (blocks state0) = 1"
    by (simp add: fresh_addr_def state0_def)
  have e: "msstore_winrt_get_last_error 0 state0 = (Inr (Some 1), ?s1)"
    by (simp add: msstore_winrt_get_last_error_def dup_string_def CoTaskMemAlloc_def memcpy_def
        fresh_addr_def state0_def)
  obtain s2 where l: "msstore_winrt_get_license_json platform_ok 0 state0 = (Inr (Some 1), s2)"
    by (simp add: msstore_winrt_get_license_json_def get_license_json_try_def platform_call_defs
        catch_clauses_Inr dup_string_def CoTaskMemAlloc_def memcpy_def set_g_lastError_def
        log_call_def fresh_addr_def platform_ok_def state0_def)
  have m: "map_of (blocks ?s1) 1 = Some [CHR 0x00]"
    by simp
  note c1 = free_contract [of state0 1 "[CHR 0x00]" 0 1 ?s1 platform_ok 1 s2]
  note c2 = free_contract [of ?s1 1 "[CHR 0x00]" 0 1 ?s1 platform_ok 1 s2]
  show ?thesis
    using c1 c2 e l m by (simp add: state0_def)
qed

subsection \<open>C10: the status mappings are total\<close>

text \<open>
  C10. Both mappings are total over the 32-bit status type: \<^verbatim>\<open>map_purchase_status\<close>
  always answers one of 0..5, and 5 for every value that is not an enumerator;
  \<^verbatim>\<open>map_rate_and_review_status\<close> always answers one of 0..4, and 4 for every value that is
  not an enumerator.
\<close>

theorem status_maps_total:
  "map_purchase_status st \<in> {0, 1, 2, 3, 4, 5} \<and>
   (st \<notin> {StorePurchaseStatus_Succeeded, StorePurchaseStatus_AlreadyPurchased,
            StorePurchaseStatus_NotPurchased, StorePurchaseStatus_NetworkError,
            StorePurchaseStatus_ServerError} \<longrightarrow> map_purchase_status st = 5) \<and>
   map_rate_and_review_status st' \<in> {0, 1, 2, 3, 4} \<and>
   (st' \<notin> {StoreRateAndReviewStatus_Succeeded, StoreRateAndReviewStatus_CanceledByUser,
             StoreRateAndReviewStatus_NetworkError, StoreRateAndReviewStatus_Error}
      \<longrightarrow> map_rate_and_review_status st' = 4)"
  by (simp add: map_purchase_status_def map_rate_and_review_status_def)

text \<open>The statement at the status values \<open>0xFFFFFFFF\<close> and 4.\<close>

theorem status_maps_total_witness:
  "(0xFFFFFFFF :: 32 word) \<notin> {StorePurchaseStatus_Succeeded, StorePurchaseStatus_AlreadyPurchased,
            StorePurchaseStatus_NotPurchased, StorePurchaseStatus_NetworkError,
            StorePurchaseStatus_ServerError} \<and>
   map_purchase_status 0xFFFFFFFF = 5 \<and>
   (4 :: 32 word) \<notin> {StoreRateAndReviewStatus_Succeeded, StoreRateAndReviewStatus_CanceledByUser,
             StoreRateAndReviewStatus_NetworkError, StoreRateAndReviewStatus_Error} \<and>
   map_rate_and_review_status 4 = 4"
proof -
  have o1: "(0xFFFFFFFF :: 32 word) \<notin> {StorePurchaseStatus_Succeeded, StorePurchaseStatus_AlreadyPurchased,
            StorePurchaseStatus_NotPurchased, StorePurchaseStatus_NetworkError,
            StorePurchaseStatus_ServerError}"
    by (simp add: StorePurchaseStatus_defs)
  have o2: "(4 :: 32 word) \<notin> {StoreRateAndReviewStatus_Succeeded, StoreRateAndReviewStatus_CanceledByUser,
             StoreRateAndReviewStatus_NetworkError, StoreRateAndReviewStatus_Error}"
    by (simp add: StoreRateAndReviewStatus_defs)
  show ?thesis
    using status_maps_total [of "0xFFFFFFFF" 4] o1 o2 by simp
qed

end
